theory Spec2Isabelle
  imports Main "HOL-Library.Word"
begin

section \<open>Data model of the chain synchronizer\<close>

text \<open>
  The embedded unit is \<^verbatim>\<open>src/catapult/chain/ChainSynchronizer.cpp\<close>.
  \<^verbatim>\<open>Height\<close>, \<^verbatim>\<open>disruptor::DisruptorElementId\<close> and \<^verbatim>\<open>size_t\<close> are unsigned 64-bit
  machine integers: addition and subtraction wrap around.
\<close>

type_synonym Height = "64 word"
type_synonym DisruptorElementId = "64 word"
type_synonym size_t = "64 word"

text \<open>
  Modelled from the spec: \<^verbatim>\<open>disruptor::CompletionStatus\<close> (the disruptor headers are not
  among the sources). The code only compares a status with \<^verbatim>\<open>Normal\<close>.
\<close>

datatype CompletionStatus = Normal | Aborted

text \<open>
  Modelled from the spec: \<^verbatim>\<open>NodeInteractionResult\<close> (its header is not among the
  sources).
\<close>

datatype NodeInteractionResult = Success | Neutral | Failure

text \<open>
  Modelled from the spec: \<^verbatim>\<open>ChainComparisonCode\<close> (\<^verbatim>\<open>CompareChains.h\<close> is not among the
  sources). The code names three of its values; every further value, whatever its
  number, takes the \<^verbatim>\<open>default\<close> branches.
\<close>

datatype ChainComparisonCode =
    Remote_Reported_Equal_Chain_Score
  | Remote_Reported_Lower_Chain_Score
  | Remote_Is_Not_Synced
  | Remote_Is_Forked
  | Other_Code nat

text \<open>
  What a call can end with instead of a value. Modelled from the spec: the exception
  classes (\<^verbatim>\<open>catapult/exceptions.h\<close> is not among the sources). A failed remote
  operation is reported as a \<^verbatim>\<open>catapult_runtime_error\<close> (or a class derived from
  it), the class every \<^verbatim>\<open>catch\<close> clause of the synchronizer names;
  \<^verbatim>\<open>CATAPULT_THROW_INVALID_ARGUMENT_1\<close> throws a \<^verbatim>\<open>catapult_invalid_argument\<close>, which
  is not a runtime error. The last two values stand for the two places where the
  code reads an element of a container without checking that there is one.
\<close>

datatype error =
    catapult_runtime_error
  | catapult_invalid_argument DisruptorElementId
  | other_exception
  | front_of_empty_queue
  | back_of_empty_range

text \<open>
  A \<^verbatim>\<open>thread::future<T>\<close>, once resolved, holds a value or an exception. The model is
  sequential: a continuation runs when its future has resolved.
\<close>

type_synonym 'a future = "error + 'a"

text \<open>
  Modelled from the spec: \<^verbatim>\<open>model::BlockRange\<close> (the entity range is not among the
  sources): an ordered sequence of blocks, each with its height and its size in bytes.
\<close>

record Block =
  Size :: "32 word"
  Height :: Height

type_synonym BlockRange = "Block list"

definition range_size :: "BlockRange \<Rightarrow> size_t" where
  "range_size rng = of_nat (length rng)"

definition totalSize :: "BlockRange \<Rightarrow> size_t" where
  "totalSize rng = sum_list (map (\<lambda>b. ucast (Size b)) rng)"

definition MergeRanges :: "BlockRange list \<Rightarrow> BlockRange" where
  "MergeRanges ranges = concat ranges"

type_synonym Transaction = "8 word list"
type_synonym TransactionRange = "Transaction list"
type_synonym ShortHashes = "32 word list"

text \<open>
  Modelled from the spec: \<^verbatim>\<open>ChainSynchronizerConfiguration\<close>, \<^verbatim>\<open>CompareChainsOptions\<close>,
  \<^verbatim>\<open>api::BlocksFromOptions\<close> and \<^verbatim>\<open>CompareChainsResult\<close> (their headers are not among
  the sources). The configuration values are 32-bit unsigned integers.
\<close>

record ChainSynchronizerConfiguration =
  MaxBlocksPerSyncAttempt :: "32 word"
  MaxChainBytesPerSyncAttempt :: "32 word"
  MaxRollbackBlocks :: "32 word"

record CompareChainsOptions =
  MaxBlocksToAnalyze :: "32 word"
  MaxBlocksToRewrite :: "32 word"

record BlocksFromOptions =
  NumBlocks :: "32 word"
  NumBytes_limit :: "32 word"

record CompareChainsResult =
  Code :: ChainComparisonCode
  CommonBlockHeight :: Height
  ForkDepth :: "64 word"

subsection \<open>The collaborators\<close>

text \<open>
  The synchronizer talks to five collaborators it does not implement: the chain
  comparison (\<^verbatim>\<open>CompareChains\<close>, which queries the local and the remote chain), the
  remote chain api (\<^verbatim>\<open>blocksFrom\<close>), the remote transaction api
  (\<^verbatim>\<open>unconfirmedTransactions\<close>), the short hashes supplier and the two range
  consumers. Every call to one of them is recorded, in order, in a list of calls; what
  a collaborator answers is an arbitrary function of the calls made so far, the
  current one last.
\<close>

datatype call =
    Call_CompareChains CompareChainsOptions
  | Call_blocksFrom Height BlocksFromOptions
  | Call_shortHashesSupplier
  | Call_unconfirmedTransactions ShortHashes
  | Call_blockRangeConsumer BlockRange
  | Call_transactionRangeConsumer TransactionRange

record env =
  CompareChains :: "call list \<Rightarrow> CompareChainsResult future"
  blocksFrom :: "call list \<Rightarrow> BlockRange future"
  shortHashesSupplier :: "call list \<Rightarrow> ShortHashes"
  unconfirmedTransactions :: "call list \<Rightarrow> TransactionRange future"
  blockRangeConsumer :: "call list \<Rightarrow> DisruptorElementId"

section \<open>UnprocessedElements\<close>

record ElementInfo =
  Id_info :: DisruptorElementId
  EndHeight :: Height
  NumBytes :: size_t

text \<open>
  \<^verbatim>\<open>m_elements\<close> is a \<^verbatim>\<open>std::queue\<close>: its front is the head of the list, \<^verbatim>\<open>emplace\<close>
  appends at the end. \<^verbatim>\<open>m_blockRangeConsumer\<close> is the collaborator \<open>blockRangeConsumer\<close>.
  Each member function holds the spin lock from its first to its last statement, so each
  is one atomic step.
\<close>

record UnprocessedElements =
  m_elements :: "ElementInfo list"
  m_maxSize :: size_t
  m_numBytes :: size_t
  m_hasPendingSync :: bool
  m_dirty :: bool

definition UnprocessedElements_ctor :: "size_t \<Rightarrow> UnprocessedElements" where
  "UnprocessedElements_ctor maxSize =
     \<lparr>m_elements = [], m_maxSize = maxSize, m_numBytes = 0,
      m_hasPendingSync = False, m_dirty = False\<rparr>"

text \<open>\<^verbatim>\<open>front()\<close> and \<^verbatim>\<open>back()\<close> of a container, defined only when it has an element.\<close>

definition front_opt :: "'a list \<Rightarrow> 'a option" where
  "front_opt xs = (case xs of [] \<Rightarrow> None | x # _ \<Rightarrow> Some x)"

definition back_opt :: "'a list \<Rightarrow> 'a option" where
  "back_opt xs = (case xs of [] \<Rightarrow> None | _ # _ \<Rightarrow> Some (last xs))"

definition UnprocessedElements_numBytes :: "UnprocessedElements \<Rightarrow> size_t" where
  "UnprocessedElements_numBytes u = m_numBytes u"

definition UnprocessedElements_empty :: "UnprocessedElements \<Rightarrow> bool" where
  "UnprocessedElements_empty u = (0 = UnprocessedElements_numBytes u)"

definition shouldStartSync :: "UnprocessedElements \<Rightarrow> bool \<times> UnprocessedElements" where
  "shouldStartSync u =
     (if m_maxSize u \<le> m_numBytes u \<or> m_hasPendingSync u \<or> m_dirty u
      then (False, u)
      else (True, u\<lparr>m_hasPendingSync := True\<rparr>))"

definition maxHeight :: "UnprocessedElements \<Rightarrow> Height" where
  "maxHeight u = (case back_opt (m_elements u) of None \<Rightarrow> 0 | Some info \<Rightarrow> EndHeight info)"

definition hasPendingOperation :: "UnprocessedElements \<Rightarrow> bool" where
  "hasPendingOperation u = (0 \<noteq> m_numBytes u \<or> m_hasPendingSync u)"

text \<open>
  \<^verbatim>\<open>add\<close> reads the height of the last block of the range before anything else it does
  with it; on a range without blocks that read has no defined result. The call of the
  consumer is recorded with the range; the callback handed over with it is \<open>remove\<close>
  below, which the pipeline calls later.
\<close>

definition UnprocessedElements_add ::
  "env \<Rightarrow> BlockRange \<Rightarrow> UnprocessedElements \<times> call list
     \<Rightarrow> error + (bool \<times> UnprocessedElements \<times> call list)" where
  "UnprocessedElements_add E rng st =
     (case st of (u, cs) \<Rightarrow>
        if m_dirty u then Inr (False, u, cs)
        else
          (case back_opt rng of
             None \<Rightarrow> Inl back_of_empty_range
           | Some lastBlock \<Rightarrow>
               let endHeight = Height lastBlock;
                   bufferSize = totalSize rng;
                   cs' = cs @ [Call_blockRangeConsumer rng];
                   newId = blockRangeConsumer E cs';
                   info = \<lparr>Id_info = newId, EndHeight = endHeight, NumBytes = bufferSize\<rparr>
               in Inr (True,
                       u\<lparr>m_numBytes := m_numBytes u + NumBytes info,
                         m_elements := m_elements u @ [info]\<rparr>,
                       cs')))"

definition UnprocessedElements_remove ::
  "DisruptorElementId \<Rightarrow> CompletionStatus \<Rightarrow> UnprocessedElements \<Rightarrow> error + UnprocessedElements" where
  "UnprocessedElements_remove eid status u =
     (case front_opt (m_elements u) of
        None \<Rightarrow> Inl front_of_empty_queue
      | Some info \<Rightarrow>
          if Id_info info \<noteq> eid then Inl (catapult_invalid_argument eid)
          else
            let u1 = u\<lparr>m_numBytes := m_numBytes u - NumBytes info\<rparr>;
                u2 = u1\<lparr>m_elements := tl (m_elements u1)\<rparr>
            in Inr (u2\<lparr>m_dirty := (hasPendingOperation u2 \<and> Normal \<noteq> status)\<rparr>))"

definition clearPendingSync :: "UnprocessedElements \<Rightarrow> UnprocessedElements" where
  "clearPendingSync u =
     (let u1 = u\<lparr>m_hasPendingSync := False\<rparr>
      in if m_dirty u1 then u1\<lparr>m_dirty := hasPendingOperation u1\<rparr> else u1)"

section \<open>The block puller\<close>

definition ToNodeInteractionResult :: "ChainComparisonCode \<Rightarrow> NodeInteractionResult" where
  "ToNodeInteractionResult code =
     (case code of
        Remote_Reported_Equal_Chain_Score \<Rightarrow> Neutral
      | Remote_Reported_Lower_Chain_Score \<Rightarrow> Neutral
      | _ \<Rightarrow> Failure)"

text \<open>
  The aggregator is created by \<^verbatim>\<open>std::make_shared<RangeAggregator>()\<close>, which
  value-initializes it: the class has no constructor of its own, so \<^verbatim>\<open>m_numBlocks\<close>
  starts at zero.
\<close>

record RangeAggregator =
  m_numBlocks :: size_t
  m_ranges :: "BlockRange list"

definition RangeAggregator_ctor :: RangeAggregator where
  "RangeAggregator_ctor = \<lparr>m_numBlocks = 0, m_ranges = []\<rparr>"

definition RangeAggregator_add :: "BlockRange \<Rightarrow> RangeAggregator \<Rightarrow> RangeAggregator" where
  "RangeAggregator_add rng a =
     (let a1 = a\<lparr>m_numBlocks := m_numBlocks a + range_size rng\<rparr>
      in a1\<lparr>m_ranges := m_ranges a1 @ [rng]\<rparr>)"

definition RangeAggregator_merge :: "RangeAggregator \<Rightarrow> BlockRange" where
  "RangeAggregator_merge a = MergeRanges (m_ranges a)"

definition RangeAggregator_empty :: "RangeAggregator \<Rightarrow> bool" where
  "RangeAggregator_empty a = (0 = m_numBlocks a)"

definition RangeAggregator_numBlocks :: "RangeAggregator \<Rightarrow> size_t" where
  "RangeAggregator_numBlocks a = m_numBlocks a"

text \<open>
  \<^verbatim>\<open>catch (const catapult_runtime_error&)\<close> around a body that produces a future: a
  runtime error thrown in the body becomes a ready \<^verbatim>\<open>Failure\<close>; any other exception
  leaves the continuation, and \<^verbatim>\<open>thread::compose\<close> and \<^verbatim>\<open>then\<close> store it in the future
  they return.
\<close>

definition catch_runtime_error ::
  "NodeInteractionResult future \<Rightarrow> NodeInteractionResult future" where
  "catch_runtime_error f =
     (case f of Inl e \<Rightarrow> (if e = catapult_runtime_error then Inr Failure else Inl e)
              | Inr r \<Rightarrow> Inr r)"

text \<open>A future supplier is called with a height and answers with a future of blocks.\<close>

type_synonym futureSupplier = "Height \<Rightarrow> call list \<Rightarrow> BlockRange future \<times> call list"

definition CreateFutureSupplier :: "env \<Rightarrow> BlocksFromOptions \<Rightarrow> futureSupplier" where
  "CreateFutureSupplier remoteApi options =
     (\<lambda>height cs.
        let cs' = cs @ [Call_blocksFrom height options]
        in (blocksFrom remoteApi cs', cs'))"

definition CompleteChainBlocksFrom ::
  "env \<Rightarrow> RangeAggregator \<Rightarrow> UnprocessedElements \<Rightarrow> call list
     \<Rightarrow> NodeInteractionResult future \<times> UnprocessedElements \<times> call list" where
  "CompleteChainBlocksFrom E rangeAggregator u cs =
     (if RangeAggregator_empty rangeAggregator then (Inr Neutral, u, cs)
      else
        let mergedRange = RangeAggregator_merge rangeAggregator
        in (case UnprocessedElements_add E mergedRange (u, cs) of
              Inl e \<Rightarrow> (Inl e, u, cs)
            | Inr (added, u', cs') \<Rightarrow> (Inr (if added then Success else Neutral), u', cs')))"

text \<open>The \<^verbatim>\<open>try\<close> block of the continuation, around what completes the pull.\<close>

definition try_complete ::
  "NodeInteractionResult future \<times> UnprocessedElements \<times> call list
     \<Rightarrow> NodeInteractionResult future \<times> UnprocessedElements \<times> call list" where
  "try_complete r = (case r of (f, u, cs) \<Rightarrow> (catch_runtime_error f, u, cs))"

text \<open>
  The pull loop. Nothing in the code bounds the number of requests, so the loop is a
  partial function: \<open>None\<close> is a run that never resolves its future.
\<close>

partial_function (option) ChainBlocksFrom ::
  "futureSupplier \<Rightarrow> env \<Rightarrow> Height \<Rightarrow> 64 word \<Rightarrow> RangeAggregator \<Rightarrow> UnprocessedElements
     \<Rightarrow> call list \<Rightarrow> (NodeInteractionResult future \<times> UnprocessedElements \<times> call list) option"
where
  "ChainBlocksFrom supplier E height forkDepth rangeAggregator u cs =
     (case supplier height cs of
        (blocksFuture, cs1) \<Rightarrow>
          (case blocksFuture of
             Inl e \<Rightarrow> Some (catch_runtime_error (Inl e), u, cs1)
           | Inr rng \<Rightarrow>
               if rng = [] then Some (try_complete (CompleteChainBlocksFrom E rangeAggregator u cs1))
               else
                 let endHeight = Height (last rng);
                     agg = RangeAggregator_add rng rangeAggregator
                 in if forkDepth \<le> RangeAggregator_numBlocks agg
                    then Some (try_complete (CompleteChainBlocksFrom E agg u cs1))
                    else ChainBlocksFrom supplier E (endHeight + 1) forkDepth agg u cs1))"

declare ChainBlocksFrom.simps [code]

section \<open>DefaultChainSynchronizer\<close>

text \<open>
  \<^verbatim>\<open>m_pLocalChainApi\<close>, \<^verbatim>\<open>m_shortHashesSupplier\<close> and \<^verbatim>\<open>m_transactionRangeConsumer\<close> are
  collaborators; the remote api passed to a round is the rest of them.
\<close>

record DefaultChainSynchronizer =
  m_compareChainOptions :: CompareChainsOptions
  m_blocksFromOptions :: BlocksFromOptions
  m_pUnprocessedElements :: UnprocessedElements

definition DefaultChainSynchronizer_ctor ::
  "ChainSynchronizerConfiguration \<Rightarrow> DefaultChainSynchronizer" where
  "DefaultChainSynchronizer_ctor config =
     \<lparr>m_compareChainOptions =
        \<lparr>MaxBlocksToAnalyze = MaxBlocksPerSyncAttempt config,
         MaxBlocksToRewrite = MaxRollbackBlocks config\<rparr>,
      m_blocksFromOptions =
        \<lparr>NumBlocks = MaxRollbackBlocks config,
         NumBytes_limit = MaxChainBytesPerSyncAttempt config\<rparr>,
      m_pUnprocessedElements =
        UnprocessedElements_ctor (ucast (3 * MaxChainBytesPerSyncAttempt config))\<rparr>"

definition compareChains ::
  "env \<Rightarrow> DefaultChainSynchronizer \<Rightarrow> UnprocessedElements \<Rightarrow> call list
     \<Rightarrow> CompareChainsResult future \<times> call list" where
  "compareChains E this u cs =
     (if UnprocessedElements_empty u
      then
        let cs' = cs @ [Call_CompareChains (m_compareChainOptions this)]
        in (CompareChains E cs', cs')
      else
        (Inr \<lparr>Code = Remote_Is_Not_Synced, CommonBlockHeight = maxHeight u, ForkDepth = 0\<rparr>,
         cs))"

definition syncWithPeer ::
  "env \<Rightarrow> DefaultChainSynchronizer \<Rightarrow> CompareChainsResult \<Rightarrow> UnprocessedElements \<Rightarrow> call list
     \<Rightarrow> (NodeInteractionResult future \<times> UnprocessedElements \<times> call list) option" where
  "syncWithPeer E this compareResult u cs =
     (case Code compareResult of
        Remote_Reported_Equal_Chain_Score \<Rightarrow>
          let cs1 = cs @ [Call_shortHashesSupplier];
              shortHashes = shortHashesSupplier E cs1;
              cs2 = cs1 @ [Call_unconfirmedTransactions shortHashes];
              transactionsFuture = unconfirmedTransactions E cs2
          in (case transactionsFuture of
                Inl e \<Rightarrow> Some (catch_runtime_error (Inl e), u, cs2)
              | Inr txs \<Rightarrow> Some (Inr Neutral, u, cs2 @ [Call_transactionRangeConsumer txs]))
      | Remote_Is_Not_Synced \<Rightarrow>
          ChainBlocksFrom
            (CreateFutureSupplier E (m_blocksFromOptions this)) E
            (CommonBlockHeight compareResult + 1)
            (ForkDepth compareResult)
            RangeAggregator_ctor u cs
      | code \<Rightarrow> Some (Inr (ToNodeInteractionResult code), u, cs))"

text \<open>
  One sync round, \<^verbatim>\<open>DefaultChainSynchronizer::operator()\<close>: the result is the future the
  round returns, the synchronizer after the round and the calls made.
\<close>

definition sync_round ::
  "env \<Rightarrow> DefaultChainSynchronizer \<Rightarrow> call list
     \<Rightarrow> (NodeInteractionResult future \<times> DefaultChainSynchronizer \<times> call list) option" where
  "sync_round remoteApi this cs =
     (case shouldStartSync (m_pUnprocessedElements this) of
        (False, u) \<Rightarrow> Some (Inr Neutral, this\<lparr>m_pUnprocessedElements := u\<rparr>, cs)
      | (True, u) \<Rightarrow>
          (case compareChains remoteApi this u cs of
             (compareChainsFuture, cs1) \<Rightarrow>
               (case (case compareChainsFuture of
                        Inl e \<Rightarrow> Some (catch_runtime_error (Inl e), u, cs1)
                      | Inr compareResult \<Rightarrow> syncWithPeer remoteApi this compareResult u cs1) of
                  None \<Rightarrow> None
                | Some (nodeInteractionFuture, u2, cs2) \<Rightarrow>
                    Some (nodeInteractionFuture,
                          this\<lparr>m_pUnprocessedElements := clearPendingSync u2\<rparr>, cs2))))"

section \<open>Runs of UnprocessedElements\<close>

text \<open>
  The synchronizer and the pipeline call the member functions of one shared
  \<^verbatim>\<open>UnprocessedElements\<close> in some order. A run applies a list of such calls, one after
  the other, and stops at the first one that throws.
\<close>

datatype operation =
    Op_shouldStartSync
  | Op_add BlockRange
  | Op_remove DisruptorElementId CompletionStatus
  | Op_clearPendingSync

definition apply_operation ::
  "env \<Rightarrow> operation \<Rightarrow> UnprocessedElements \<times> call list
     \<Rightarrow> error + (UnprocessedElements \<times> call list)" where
  "apply_operation E op st =
     (case st of (u, cs) \<Rightarrow>
        (case op of
           Op_shouldStartSync \<Rightarrow> Inr (snd (shouldStartSync u), cs)
         | Op_add rng \<Rightarrow>
             (case UnprocessedElements_add E rng (u, cs) of
                Inl e \<Rightarrow> Inl e
              | Inr (added, u', cs') \<Rightarrow> Inr (u', cs'))
         | Op_remove eid status \<Rightarrow>
             (case UnprocessedElements_remove eid status u of
                Inl e \<Rightarrow> Inl e
              | Inr u' \<Rightarrow> Inr (u', cs))
         | Op_clearPendingSync \<Rightarrow> Inr (clearPendingSync u, cs)))"

fun run_operations ::
  "env \<Rightarrow> operation list \<Rightarrow> UnprocessedElements \<times> call list
     \<Rightarrow> error + (UnprocessedElements \<times> call list)" where
  "run_operations E [] st = Inr st"
| "run_operations E (op # ops) st =
     (case apply_operation E op st of
        Inl e \<Rightarrow> Inl e
      | Inr st' \<Rightarrow> run_operations E ops st')"

text \<open>The sum of the recorded sizes of the queued elements, in \<^verbatim>\<open>size_t\<close> arithmetic.\<close>

definition queued_bytes :: "UnprocessedElements \<Rightarrow> size_t" where
  "queued_bytes u = sum_list (map NumBytes (m_elements u))"

text \<open>
  The contract of the pipeline: the completion callback of a range fires once, after the
  range was handed off. \<open>pending\<close> lists the ids of the ranges handed off whose callback
  has not fired yet; a run keeps the contract when every \<open>remove\<close> in it is the callback
  of such a range.
\<close>

fun callbacks_fire_once ::
  "env \<Rightarrow> operation list \<Rightarrow> UnprocessedElements \<times> call list \<Rightarrow> DisruptorElementId list
     \<Rightarrow> bool" where
  "callbacks_fire_once E [] st pending = True"
| "callbacks_fire_once E (Op_add rng # ops) st pending =
     (case UnprocessedElements_add E rng st of
        Inl e \<Rightarrow> True
      | Inr (added, u', cs') \<Rightarrow>
          callbacks_fire_once E ops (u', cs')
            (if added then pending @ [blockRangeConsumer E cs'] else pending))"
| "callbacks_fire_once E (Op_remove eid status # ops) st pending =
     (eid \<in> set pending \<and>
      (case apply_operation E (Op_remove eid status) st of
         Inl e \<Rightarrow> True
       | Inr st' \<Rightarrow> callbacks_fire_once E ops st' (remove1 eid pending)))"
| "callbacks_fire_once E (Op_shouldStartSync # ops) st pending =
     (case apply_operation E Op_shouldStartSync st of
        Inl e \<Rightarrow> True
      | Inr st' \<Rightarrow> callbacks_fire_once E ops st' pending)"
| "callbacks_fire_once E (Op_clearPendingSync # ops) st pending =
     (case apply_operation E Op_clearPendingSync st of
        Inl e \<Rightarrow> True
      | Inr st' \<Rightarrow> callbacks_fire_once E ops st' pending)"

section \<open>Concrete collaborators and inputs\<close>

text \<open>
  A pipeline that numbers the ranges it is given 1, 2, 3, ... and a peer whose chain ends
  at height 102 and that answers a request with the single block at the requested
  height, if it has one. The chain comparison reports the common height 100 and the fork
  depth 2.
\<close>

definition count_consumed :: "call list \<Rightarrow> nat" where
  "count_consumed cs =
     length (filter (\<lambda>c. case c of Call_blockRangeConsumer _ \<Rightarrow> True | _ \<Rightarrow> False) cs)"

definition env_ok :: env where
  "env_ok =
     \<lparr>CompareChains =
        (\<lambda>cs. Inr \<lparr>Code = Remote_Is_Not_Synced, CommonBlockHeight = 100, ForkDepth = 2\<rparr>),
      blocksFrom = (\<lambda>cs. case last cs of
                            Call_blocksFrom h _ \<Rightarrow>
                              if h \<le> 102 then Inr [\<lparr>Size = 10, Height = h\<rparr>] else Inr []
                          | _ \<Rightarrow> Inr []),
      shortHashesSupplier = (\<lambda>cs. [7]),
      unconfirmedTransactions = (\<lambda>cs. Inr [[1, 2], [3]]),
      blockRangeConsumer = (\<lambda>cs. of_nat (count_consumed cs))\<rparr>"

definition config_100 :: ChainSynchronizerConfiguration where
  "config_100 =
     \<lparr>MaxBlocksPerSyncAttempt = 40, MaxChainBytesPerSyncAttempt = 100, MaxRollbackBlocks = 20\<rparr>"

definition range_101 :: BlockRange where
  "range_101 = [\<lparr>Size = 10, Height = 101\<rparr>]"

definition range_102 :: BlockRange where
  "range_102 = [\<lparr>Size = 10, Height = 102\<rparr>]"

definition range_103 :: BlockRange where
  "range_103 = [\<lparr>Size = 10, Height = 103\<rparr>]"

text \<open>Two ranges in flight, handed off as elements 1 and 2.\<close>

definition two_in_flight :: UnprocessedElements where
  "two_in_flight =
     \<lparr>m_elements =
        [\<lparr>Id_info = 1, EndHeight = 101, NumBytes = 10\<rparr>,
         \<lparr>Id_info = 2, EndHeight = 102, NumBytes = 10\<rparr>],
      m_maxSize = 300, m_numBytes = 20, m_hasPendingSync = False, m_dirty = False\<rparr>"

text \<open>What is left of them once element 1 has completed with status \<open>Aborted\<close>.\<close>

definition after_abort :: UnprocessedElements where
  "after_abort =
     \<lparr>m_elements = [\<lparr>Id_info = 2, EndHeight = 102, NumBytes = 10\<rparr>],
      m_maxSize = 300, m_numBytes = 10, m_hasPendingSync = False, m_dirty = True\<rparr>"

text \<open>
  The same collaborators with a chain comparison that reports equal scores, a lower
  score or a fork, with a peer whose chain is one block longer, with a chain comparison
  that fails, with a peer whose block requests fail, and with a peer whose transaction
  requests fail.
\<close>

definition env_equal :: env where
  "env_equal =
     env_ok\<lparr>CompareChains :=
       (\<lambda>cs. Inr \<lparr>Code = Remote_Reported_Equal_Chain_Score, CommonBlockHeight = 100,
                   ForkDepth = 0\<rparr>)\<rparr>"

definition env_lower :: env where
  "env_lower =
     env_ok\<lparr>CompareChains :=
       (\<lambda>cs. Inr \<lparr>Code = Remote_Reported_Lower_Chain_Score, CommonBlockHeight = 100,
                   ForkDepth = 0\<rparr>)\<rparr>"

definition env_forked :: env where
  "env_forked =
     env_ok\<lparr>CompareChains :=
       (\<lambda>cs. Inr \<lparr>Code = Remote_Is_Forked, CommonBlockHeight = 100, ForkDepth = 0\<rparr>)\<rparr>"

definition env_103 :: env where
  "env_103 =
     env_ok\<lparr>blocksFrom :=
       (\<lambda>cs. case last cs of
               Call_blocksFrom h _ \<Rightarrow>
                 if h \<le> 103 then Inr [\<lparr>Size = 10, Height = h\<rparr>] else Inr []
             | _ \<Rightarrow> Inr [])\<rparr>"

definition env_compare_fails :: env where
  "env_compare_fails = env_ok\<lparr>CompareChains := (\<lambda>cs. Inl catapult_runtime_error)\<rparr>"

definition env_blocks_fail :: env where
  "env_blocks_fail = env_ok\<lparr>blocksFrom := (\<lambda>cs. Inl catapult_runtime_error)\<rparr>"

definition env_transactions_fail :: env where
  "env_transactions_fail =
     env_equal\<lparr>unconfirmedTransactions := (\<lambda>cs. Inl catapult_runtime_error)\<rparr>"

text \<open>Calls that end with an exception that is not a runtime error.\<close>

definition env_compare_throws :: env where
  "env_compare_throws = env_ok\<lparr>CompareChains := (\<lambda>cs. Inl other_exception)\<rparr>"

definition env_blocks_throw :: env where
  "env_blocks_throw = env_ok\<lparr>blocksFrom := (\<lambda>cs. Inl other_exception)\<rparr>"

definition options_100 :: BlocksFromOptions where
  "options_100 = \<lparr>NumBlocks = 20, NumBytes_limit = 100\<rparr>"

definition compare_call :: call where
  "compare_call = Call_CompareChains \<lparr>MaxBlocksToAnalyze = 40, MaxBlocksToRewrite = 20\<rparr>"

text \<open>The state of a freshly constructed synchronizer while its first round runs.\<close>

definition started :: UnprocessedElements where
  "started = (UnprocessedElements_ctor 300)\<lparr>m_hasPendingSync := True\<rparr>"

definition sync_100 :: DefaultChainSynchronizer where
  "sync_100 = DefaultChainSynchronizer_ctor config_100"

definition two_calls :: "call list" where
  "two_calls = [Call_blockRangeConsumer range_101, Call_blockRangeConsumer range_102]"

section \<open>Auxiliary facts\<close>

lemma Normal_neq_commute: "(Normal \<noteq> status) = (status \<noteq> Normal)"
  by auto

lemmas example_defs =
  env_ok_def count_consumed_def range_101_def range_102_def range_103_def two_in_flight_def
  after_abort_def two_calls_def config_100_def env_equal_def env_compare_fails_def
  env_blocks_fail_def env_transactions_fail_def options_100_def sync_100_def env_lower_def
  env_forked_def compare_call_def started_def env_103_def env_compare_throws_def
  env_blocks_throw_def

subsection \<open>The byte counter and the queue\<close>

lemma queued_bytes_ctor:
  "m_numBytes (UnprocessedElements_ctor maxSize) = queued_bytes (UnprocessedElements_ctor maxSize)"
  by (simp add: UnprocessedElements_ctor_def queued_bytes_def)

lemma queued_bytes_shouldStartSync:
  "m_numBytes u = queued_bytes u
     \<Longrightarrow> m_numBytes (snd (shouldStartSync u)) = queued_bytes (snd (shouldStartSync u))"
  by (simp add: shouldStartSync_def queued_bytes_def)

lemma queued_bytes_clearPendingSync:
  "m_numBytes u = queued_bytes u
     \<Longrightarrow> m_numBytes (clearPendingSync u) = queued_bytes (clearPendingSync u)"
  by (simp add: clearPendingSync_def queued_bytes_def Let_def)

lemma queued_bytes_add:
  "m_numBytes u = queued_bytes u \<Longrightarrow> UnprocessedElements_add E rng (u, cs) = Inr (b, u', cs')
     \<Longrightarrow> m_numBytes u' = queued_bytes u'"
  by (auto simp add: UnprocessedElements_add_def queued_bytes_def Let_def
        split: if_splits option.splits)

lemma queued_bytes_remove:
  "m_numBytes u = queued_bytes u \<Longrightarrow> UnprocessedElements_remove eid status u = Inr u'
     \<Longrightarrow> m_numBytes u' = queued_bytes u'"
  by (auto simp add: UnprocessedElements_remove_def queued_bytes_def Let_def front_opt_def
        split: if_splits list.splits)

lemma queued_bytes_apply:
  assumes inv: "m_numBytes u = queued_bytes u"
    and step: "apply_operation E op (u, cs) = Inr (u', cs')"
  shows "m_numBytes u' = queued_bytes u'"
proof (cases op)
  case Op_shouldStartSync
  with inv step show ?thesis
    using queued_bytes_shouldStartSync [of u] by (auto simp add: apply_operation_def)
next
  case (Op_add rng)
  with inv step show ?thesis
    by (auto simp add: apply_operation_def split: sum.splits dest: queued_bytes_add)
next
  case (Op_remove eid status)
  with inv step show ?thesis
    by (auto simp add: apply_operation_def split: sum.splits dest: queued_bytes_remove)
next
  case Op_clearPendingSync
  with inv step show ?thesis
    using queued_bytes_clearPendingSync [of u] by (auto simp add: apply_operation_def)
qed

lemma queued_bytes_run:
  "m_numBytes (fst st) = queued_bytes (fst st) \<Longrightarrow> run_operations E ops st = Inr st'
     \<Longrightarrow> m_numBytes (fst st') = queued_bytes (fst st')"
proof (induction ops arbitrary: st)
  case Nil
  then show ?case by simp
next
  case (Cons op ops)
  from Cons.prems(2) obtain st1 where
    step: "apply_operation E op st = Inr st1" and rest: "run_operations E ops st1 = Inr st'"
    by (auto split: sum.splits)
  from step Cons.prems(1) have "m_numBytes (fst st1) = queued_bytes (fst st1)"
    using queued_bytes_apply [of "fst st" E op "snd st" "fst st1" "snd st1"] by simp
  with rest show ?case by (rule Cons.IH [rotated])
qed

lemma unat_sum_list_size_t:
  "unat (sum_list (xs :: size_t list)) = (\<Sum>x\<leftarrow>xs. unat x) mod 2 ^ 64"
  by (induction xs) (simp_all add: unat_word_ariths mod_add_right_eq)

lemmas unprocessed_defs =
  UnprocessedElements_ctor_def shouldStartSync_def UnprocessedElements_add_def
  UnprocessedElements_remove_def clearPendingSync_def hasPendingOperation_def
  front_opt_def back_opt_def totalSize_def apply_operation_def Let_def

subsection \<open>The dirty flag\<close>

lemma dirty_pending_apply:
  assumes inv: "m_dirty u \<longrightarrow> hasPendingOperation u"
    and step: "apply_operation E op (u, cs) = Inr (u', cs')"
  shows "m_dirty u' \<longrightarrow> hasPendingOperation u'"
  using assms
  by (cases op)
     (auto simp add: unprocessed_defs split: if_splits sum.splits list.splits option.splits)

lemma dirty_pending_run:
  "m_dirty (fst st) \<longrightarrow> hasPendingOperation (fst st) \<Longrightarrow> run_operations E ops st = Inr st'
     \<Longrightarrow> m_dirty (fst st') \<longrightarrow> hasPendingOperation (fst st')"
proof (induction ops arbitrary: st)
  case Nil
  then show ?case by simp
next
  case (Cons op ops)
  from Cons.prems(2) obtain st1 where
    step: "apply_operation E op st = Inr st1" and rest: "run_operations E ops st1 = Inr st'"
    by (auto split: sum.splits)
  from step Cons.prems(1) have "m_dirty (fst st1) \<longrightarrow> hasPendingOperation (fst st1)"
    using dirty_pending_apply [of "fst st" E op "snd st" "fst st1" "snd st1"] by simp
  with rest show ?case by (rule Cons.IH [rotated])
qed

subsection \<open>Callbacks and the length of the queue\<close>

text \<open>
  As long as the pipeline keeps its contract, the callbacks still to fire are as many as
  the elements queued, so a callback never finds the queue empty.
\<close>

lemma fire_once_no_empty_front:
  "length pending = length (m_elements (fst st)) \<Longrightarrow> callbacks_fire_once E ops st pending
     \<Longrightarrow> run_operations E ops st \<noteq> Inl front_of_empty_queue"
proof (induction E ops st pending rule: callbacks_fire_once.induct)
  case (1 E st pending)
  then show ?case by simp
next
  case (2 E rng ops st pending)
  show ?case
  proof (cases "UnprocessedElements_add E rng st")
    case (Inl e)
    then have "e = back_of_empty_range"
      by (cases st)
         (auto simp add: UnprocessedElements_add_def Let_def split: if_splits option.splits)
    with Inl show ?thesis by (cases st) (simp add: apply_operation_def)
  next
    case (Inr r)
    obtain added u' cs' where r: "r = (added, u', cs')" by (cases r) auto
    have len: "length (if added then pending @ [blockRangeConsumer E cs'] else pending)
                 = length (m_elements (fst (u', cs')))"
      using Inr r "2.prems"(1)
      by (cases st)
         (auto simp add: UnprocessedElements_add_def Let_def split: if_splits option.splits)
    have fire: "callbacks_fire_once E ops (u', cs')
                  (if added then pending @ [blockRangeConsumer E cs'] else pending)"
      using "2.prems"(2) Inr r by simp
    have "run_operations E ops (u', cs') \<noteq> Inl front_of_empty_queue"
      using "2.IH" [OF Inr r [symmetric] refl len fire] .
    then show ?thesis using Inr r by (cases st) (simp add: apply_operation_def)
  qed
next
  case (3 E eid status ops st pending)
  from "3.prems" have mem: "eid \<in> set pending" by simp
  then have "pending \<noteq> []" by auto
  with "3.prems"(1) have nonempty: "m_elements (fst st) \<noteq> []" by auto
  show ?case
  proof (cases "apply_operation E (Op_remove eid status) st")
    case (Inl e)
    then have "e \<noteq> front_of_empty_queue"
      using nonempty
      by (cases st)
         (auto simp add: apply_operation_def UnprocessedElements_remove_def front_opt_def Let_def
            split: list.splits if_splits sum.splits)
    with Inl show ?thesis by simp
  next
    case (Inr st')
    have len: "length (remove1 eid pending) = length (m_elements (fst st'))"
      using Inr mem "3.prems"(1) nonempty
      by (cases st)
         (auto simp add: apply_operation_def UnprocessedElements_remove_def front_opt_def Let_def
            length_remove1 split: list.splits if_splits sum.splits)
    have fire: "callbacks_fire_once E ops st' (remove1 eid pending)"
      using "3.prems"(2) Inr by simp
    have "run_operations E ops st' \<noteq> Inl front_of_empty_queue"
      using "3.IH" [OF Inr len fire] .
    with Inr show ?thesis by simp
  qed
next
  case (4 E ops st pending)
  show ?case
  proof (cases "apply_operation E Op_shouldStartSync st")
    case (Inl e)
    then show ?thesis by (cases st) (simp add: apply_operation_def)
  next
    case (Inr st')
    have len: "length pending = length (m_elements (fst st'))"
      using Inr "4.prems"(1) by (cases st) (auto simp add: unprocessed_defs split: if_splits)
    have fire: "callbacks_fire_once E ops st' pending" using "4.prems"(2) Inr by simp
    have "run_operations E ops st' \<noteq> Inl front_of_empty_queue"
      using "4.IH" [OF Inr len fire] .
    with Inr show ?thesis by simp
  qed
next
  case (5 E ops st pending)
  show ?case
  proof (cases "apply_operation E Op_clearPendingSync st")
    case (Inl e)
    then show ?thesis by (cases st) (simp add: apply_operation_def)
  next
    case (Inr st')
    have len: "length pending = length (m_elements (fst st'))"
      using Inr "5.prems"(1) by (cases st) (auto simp add: unprocessed_defs split: if_splits)
    have fire: "callbacks_fire_once E ops st' pending" using "5.prems"(2) Inr by simp
    have "run_operations E ops st' \<noteq> Inl front_of_empty_queue"
      using "5.IH" [OF Inr len fire] .
    with Inr show ?thesis by simp
  qed
qed

subsection \<open>The pull loop\<close>

lemma catch_runtime_error_simps:
  "catch_runtime_error (Inr r) = Inr r"
  "catch_runtime_error (Inl catapult_runtime_error) = Inr Failure"
  by (simp_all add: catch_runtime_error_def)

lemma catch_runtime_error_neq: "catch_runtime_error f \<noteq> Inl catapult_runtime_error"
  by (auto simp add: catch_runtime_error_def split: sum.splits)

lemma add_error:
  "UnprocessedElements_add E rng (u, cs) = Inl e
     \<Longrightarrow> e = back_of_empty_range \<and> rng = [] \<and> \<not> m_dirty u"
  by (auto simp add: UnprocessedElements_add_def back_opt_def Let_def split: if_splits list.splits)

lemma Complete_not_runtime_error:
  "fst (CompleteChainBlocksFrom E agg u cs) \<noteq> Inl catapult_runtime_error"
  by (auto simp add: CompleteChainBlocksFrom_def Let_def split: sum.splits dest: add_error)

lemma try_complete_Complete:
  "try_complete (CompleteChainBlocksFrom E agg u cs) = CompleteChainBlocksFrom E agg u cs"
  using Complete_not_runtime_error [of E agg u cs]
  by (cases "CompleteChainBlocksFrom E agg u cs")
     (auto simp add: try_complete_def catch_runtime_error_def split: sum.splits)

lemma ChainBlocksFrom_empty_reply:
  "supplier height cs = (Inr [], cs1) \<Longrightarrow>
   ChainBlocksFrom supplier E height forkDepth agg u cs = Some (CompleteChainBlocksFrom E agg u cs1)"
  by (subst ChainBlocksFrom.simps) (simp add: try_complete_Complete)

lemma ChainBlocksFrom_enough:
  "supplier height cs = (Inr rng, cs1) \<Longrightarrow> rng \<noteq> [] \<Longrightarrow>
   forkDepth \<le> m_numBlocks (RangeAggregator_add rng agg) \<Longrightarrow>
   ChainBlocksFrom supplier E height forkDepth agg u cs =
     Some (CompleteChainBlocksFrom E (RangeAggregator_add rng agg) u cs1)"
  by (subst ChainBlocksFrom.simps) (simp add: try_complete_Complete RangeAggregator_numBlocks_def)

lemma ChainBlocksFrom_more:
  "supplier height cs = (Inr rng, cs1) \<Longrightarrow> rng \<noteq> [] \<Longrightarrow>
   \<not> forkDepth \<le> m_numBlocks (RangeAggregator_add rng agg) \<Longrightarrow>
   ChainBlocksFrom supplier E height forkDepth agg u cs =
     ChainBlocksFrom supplier E (Height (last rng) + 1) forkDepth (RangeAggregator_add rng agg) u cs1"
  by (subst ChainBlocksFrom.simps) (simp add: RangeAggregator_numBlocks_def)

lemma ChainBlocksFrom_error:
  "supplier height cs = (Inl e, cs1) \<Longrightarrow>
   ChainBlocksFrom supplier E height forkDepth agg u cs = Some (catch_runtime_error (Inl e), u, cs1)"
  by (subst ChainBlocksFrom.simps) simp

lemmas puller_defs =
  CreateFutureSupplier_def CompleteChainBlocksFrom_def RangeAggregator_ctor_def
  RangeAggregator_add_def RangeAggregator_empty_def RangeAggregator_merge_def
  RangeAggregator_numBlocks_def MergeRanges_def range_size_def try_complete_def
  catch_runtime_error_def

subsection \<open>The sync round\<close>

lemma shouldStartSync_False:
  "shouldStartSync u = (False, v) \<Longrightarrow> v = u"
  by (auto simp add: shouldStartSync_def split: if_splits)

lemma sync_round_started:
  "shouldStartSync (m_pUnprocessedElements this) = (True, u) \<Longrightarrow>
   compareChains E this u cs = (Inr r, ds) \<Longrightarrow>
   sync_round E this cs =
     map_option (\<lambda>(f, v, es). (f, this\<lparr>m_pUnprocessedElements := clearPendingSync v\<rparr>, es))
       (syncWithPeer E this r u ds)"
  by (simp add: sync_round_def split: option.splits)

lemma sync_round_compare_error:
  "shouldStartSync (m_pUnprocessedElements this) = (True, u) \<Longrightarrow>
   compareChains E this u cs = (Inl e, ds) \<Longrightarrow>
   sync_round E this cs =
     Some (catch_runtime_error (Inl e), this\<lparr>m_pUnprocessedElements := clearPendingSync u\<rparr>, ds)"
  by (simp add: sync_round_def)

lemmas sync_defs =
  DefaultChainSynchronizer_ctor_def compareChains_def UnprocessedElements_empty_def
  UnprocessedElements_numBytes_def maxHeight_def

lemma pull_after_compare:
  "ChainBlocksFrom (CreateFutureSupplier env_ok options_100) env_ok 101 2 RangeAggregator_ctor
     started [compare_call] =
   Some (Inr Success,
         \<lparr>m_elements = [\<lparr>Id_info = 1, EndHeight = 102, NumBytes = 20\<rparr>],
          m_maxSize = 300, m_numBytes = 20, m_hasPendingSync = True, m_dirty = False\<rparr>,
         [compare_call, Call_blocksFrom 101 options_100, Call_blocksFrom 102 options_100,
          Call_blockRangeConsumer (range_101 @ range_102)])"
  apply (subst ChainBlocksFrom.simps)
  apply (simp add: puller_defs unprocessed_defs example_defs word_le_nat_alt)
  apply (subst ChainBlocksFrom.simps)
  apply (simp add: puller_defs unprocessed_defs example_defs word_le_nat_alt)
  done

subsection \<open>The calls of a round\<close>

lemma Complete_calls:
  "CompleteChainBlocksFrom E agg u cs = (f, v, es) \<Longrightarrow>
   \<exists>new. es = cs @ new \<and> (\<forall>opts. Call_CompareChains opts \<notin> set new)"
  by (auto simp add: CompleteChainBlocksFrom_def UnprocessedElements_add_def Let_def
        split: if_splits sum.splits option.splits)

lemma ChainBlocksFrom_calls:
  assumes "ChainBlocksFrom supplier E height forkDepth agg u cs = Some y"
  shows "supplier = CreateFutureSupplier R options \<longrightarrow>
         (\<exists>new. snd (snd y) = cs @ new \<and> (\<forall>opts. Call_CompareChains opts \<notin> set new))"
  using assms
proof (induction rule: ChainBlocksFrom.raw_induct [rotated 1, consumes 1])
  case (1 C supplier E height forkDepth agg u cs y)
  show ?case
  proof
    assume sup: "supplier = CreateFutureSupplier R options"
    let ?ds = "cs @ [Call_blocksFrom height options]"
    have reply: "supplier height cs = (blocksFrom R ?ds, ?ds)"
      by (simp add: sup CreateFutureSupplier_def Let_def)
    show "\<exists>new. snd (snd y) = cs @ new \<and> (\<forall>opts. Call_CompareChains opts \<notin> set new)"
    proof (cases "blocksFrom R ?ds")
      case (Inl e)
      with "1.hyps" reply have "snd (snd y) = cs @ [Call_blocksFrom height options]"
        by auto
      then show ?thesis by auto
    next
      case (Inr rng)
      show ?thesis
      proof (cases "rng = [] \<or> forkDepth \<le> RangeAggregator_numBlocks (RangeAggregator_add rng agg)")
        case True
        with "1.hyps" reply Inr obtain a where
          y: "y = CompleteChainBlocksFrom E a u ?ds"
          by (auto simp add: try_complete_Complete Let_def split: if_splits)
        obtain f v es where c: "CompleteChainBlocksFrom E a u ?ds = (f, v, es)"
          by (cases "CompleteChainBlocksFrom E a u ?ds") auto
        from Complete_calls [OF c] obtain new where
          "es = ?ds @ new" "\<forall>opts. Call_CompareChains opts \<notin> set new" by auto
        with y c have "snd (snd y) = cs @ (Call_blocksFrom height options # new)
            \<and> (\<forall>opts. Call_CompareChains opts \<notin> set (Call_blocksFrom height options # new))"
          by auto
        then show ?thesis by blast
      next
        case False
        with "1.hyps" reply Inr have
          rec: "C supplier E (Height (last rng) + 1) forkDepth (RangeAggregator_add rng agg) u ?ds
                  = Some y"
          by (auto simp add: Let_def split: if_splits)
        from "1.IH" [OF rec] sup obtain new where
          "snd (snd y) = ?ds @ new" "\<forall>opts. Call_CompareChains opts \<notin> set new" by auto
        then have "snd (snd y) = cs @ (Call_blocksFrom height options # new)
            \<and> (\<forall>opts. Call_CompareChains opts \<notin> set (Call_blocksFrom height options # new))"
          by auto
        then show ?thesis by blast
      qed
    qed
  qed
qed

lemma back_opt_snoc: "back_opt (xs @ [x]) = Some x"
  by (cases xs) (simp_all add: back_opt_def)

subsection \<open>What the future of a round holds\<close>

lemma Complete_value:
  assumes ok: "concat (m_ranges agg) = [] \<longrightarrow> m_numBlocks agg = 0"
  shows "\<exists>res. fst (CompleteChainBlocksFrom E agg u cs) = Inr res"
proof (cases "m_numBlocks agg = 0")
  case True
  then show ?thesis by (simp add: CompleteChainBlocksFrom_def RangeAggregator_empty_def)
next
  case False
  with ok have "concat (m_ranges agg) \<noteq> []" by auto
  then have "\<exists>b v es. UnprocessedElements_add E (concat (m_ranges agg)) (u, cs) = Inr (b, v, es)"
    by (cases "UnprocessedElements_add E (concat (m_ranges agg)) (u, cs)")
       (auto dest: add_error)
  with False show ?thesis
    by (auto simp add: CompleteChainBlocksFrom_def RangeAggregator_empty_def
          RangeAggregator_merge_def MergeRanges_def)
qed

lemma ChainBlocksFrom_value:
  assumes "ChainBlocksFrom supplier E height forkDepth agg u cs = Some y"
  shows "supplier = CreateFutureSupplier R options \<longrightarrow>
         (\<forall>c e. blocksFrom R c = Inl e \<longrightarrow> e = catapult_runtime_error) \<longrightarrow>
         (concat (m_ranges agg) = [] \<longrightarrow> m_numBlocks agg = 0) \<longrightarrow>
         (\<exists>res. fst y = Inr res)"
  using assms
proof (induction rule: ChainBlocksFrom.raw_induct [rotated 1, consumes 1])
  case (1 C supplier E height forkDepth agg u cs y)
  show ?case
  proof (intro impI)
    assume sup: "supplier = CreateFutureSupplier R options"
      and peer: "\<forall>c e. blocksFrom R c = Inl e \<longrightarrow> e = catapult_runtime_error"
      and ok: "concat (m_ranges agg) = [] \<longrightarrow> m_numBlocks agg = 0"
    let ?ds = "cs @ [Call_blocksFrom height options]"
    have reply: "supplier height cs = (blocksFrom R ?ds, ?ds)"
      by (simp add: sup CreateFutureSupplier_def Let_def)
    show "\<exists>res. fst y = Inr res"
    proof (cases "blocksFrom R ?ds")
      case (Inl e)
      with peer have "e = catapult_runtime_error" by blast
      with "1.hyps" reply Inl show ?thesis
        by (auto simp add: catch_runtime_error_def)
    next
      case (Inr rng)
      show ?thesis
      proof (cases "rng = []")
        case True
        with "1.hyps" reply Inr have "y = CompleteChainBlocksFrom E agg u ?ds"
          by (auto simp add: try_complete_Complete)
        with Complete_value [OF ok] show ?thesis by simp
      next
        case False
        let ?a = "RangeAggregator_add rng agg"
        from False have ok': "concat (m_ranges ?a) = [] \<longrightarrow> m_numBlocks ?a = 0"
          by (simp add: RangeAggregator_add_def Let_def)
        show ?thesis
        proof (cases "forkDepth \<le> RangeAggregator_numBlocks ?a")
          case True
          with "1.hyps" reply Inr False have "y = CompleteChainBlocksFrom E ?a u ?ds"
            by (auto simp add: try_complete_Complete Let_def)
          with Complete_value [OF ok'] show ?thesis by simp
        next
          case deeper: False
          with "1.hyps" reply Inr False have
            rec: "C supplier E (Height (last rng) + 1) forkDepth ?a u ?ds = Some y"
            by (auto simp add: Let_def)
          from "1.IH" [OF rec] sup peer ok' show ?thesis by blast
        qed
      qed
    qed
  qed
qed


lemma ChainBlocksFrom_not_runtime_error:
  assumes "ChainBlocksFrom supplier E height forkDepth agg u cs = Some y"
  shows "fst y \<noteq> Inl catapult_runtime_error"
  using assms
proof (induction rule: ChainBlocksFrom.raw_induct [rotated 1, consumes 1])
  case (1 C supplier E height forkDepth agg u cs y)
  from "1.hyps" show ?case
    by (auto simp add: Let_def try_complete_Complete Complete_not_runtime_error
          catch_runtime_error_neq split: prod.splits sum.splits if_splits dest: "1.IH")
qed

lemma syncWithPeer_not_runtime_error:
  assumes "syncWithPeer E this r u cs = Some (f, v, es)"
  shows "f \<noteq> Inl catapult_runtime_error"
proof (cases "Code r")
  case Remote_Reported_Equal_Chain_Score
  with assms show ?thesis
    by (auto simp add: syncWithPeer_def Let_def catch_runtime_error_neq split: sum.splits)
next
  case Remote_Is_Not_Synced
  with assms show ?thesis
    using ChainBlocksFrom_not_runtime_error
      [of "CreateFutureSupplier E (m_blocksFromOptions this)" E "CommonBlockHeight r + 1"
          "ForkDepth r" RangeAggregator_ctor u cs "(f, v, es)"]
    by (simp add: syncWithPeer_def)
next
  case Remote_Reported_Lower_Chain_Score
  with assms show ?thesis by (auto simp add: syncWithPeer_def)
next
  case Remote_Is_Forked
  with assms show ?thesis by (auto simp add: syncWithPeer_def)
next
  case (Other_Code n)
  with assms show ?thesis by (auto simp add: syncWithPeer_def)
qed

lemma sync_round_not_runtime_error:
  assumes "sync_round E this cs = Some (f, this', cs')"
  shows "f \<noteq> Inl catapult_runtime_error"
  using assms
  by (auto simp add: sync_round_def catch_runtime_error_neq
        split: prod.splits bool.splits sum.splits option.splits if_splits
        dest: syncWithPeer_not_runtime_error)

lemma syncWithPeer_value:
  assumes run: "syncWithPeer E this r u cs = Some (f, v, es)"
    and peer: "\<forall>c e. CompareChains E c = Inl e \<or> blocksFrom E c = Inl e
                  \<or> unconfirmedTransactions E c = Inl e \<longrightarrow> e = catapult_runtime_error"
  shows "\<exists>res. f = Inr res"
proof (cases "Code r")
  case Remote_Reported_Equal_Chain_Score
  let ?ds = "cs @ [Call_shortHashesSupplier,
                   Call_unconfirmedTransactions
                     (shortHashesSupplier E (cs @ [Call_shortHashesSupplier]))]"
  show ?thesis
  proof (cases "unconfirmedTransactions E ?ds")
    case (Inl e)
    with peer have "e = catapult_runtime_error" by blast
    with run Remote_Reported_Equal_Chain_Score Inl show ?thesis
      by (auto simp add: syncWithPeer_def Let_def catch_runtime_error_def)
  next
    case (Inr txs)
    with run Remote_Reported_Equal_Chain_Score show ?thesis
      by (auto simp add: syncWithPeer_def Let_def)
  qed
next
  case Remote_Is_Not_Synced
  with run have loop: "ChainBlocksFrom (CreateFutureSupplier E (m_blocksFromOptions this)) E
      (CommonBlockHeight r + 1) (ForkDepth r) RangeAggregator_ctor u cs = Some (f, v, es)"
    by (simp add: syncWithPeer_def)
  from peer have blocks: "\<forall>c e. blocksFrom E c = Inl e \<longrightarrow> e = catapult_runtime_error"
    by blast
  from ChainBlocksFrom_value [OF loop, of E "m_blocksFromOptions this"] blocks
  show ?thesis by (simp add: RangeAggregator_ctor_def)
next
  case Remote_Reported_Lower_Chain_Score
  with run show ?thesis by (auto simp add: syncWithPeer_def)
next
  case Remote_Is_Forked
  with run show ?thesis by (auto simp add: syncWithPeer_def)
next
  case (Other_Code n)
  with run show ?thesis by (auto simp add: syncWithPeer_def)
qed

lemma sync_round_value:
  assumes run: "sync_round E this cs = Some (f, this', cs')"
    and peer: "\<forall>c e. CompareChains E c = Inl e \<or> blocksFrom E c = Inl e
                  \<or> unconfirmedTransactions E c = Inl e \<longrightarrow> e = catapult_runtime_error"
  shows "\<exists>res. f = Inr res"
proof (cases "shouldStartSync (m_pUnprocessedElements this)")
  case (Pair started u)
  show ?thesis
  proof (cases started)
    case False
    with run Pair show ?thesis by (auto simp add: sync_round_def)
  next
    case True
    obtain compared ds where cmp: "compareChains E this u cs = (compared, ds)"
      by (cases "compareChains E this u cs") auto
    show ?thesis
    proof (cases compared)
      case (Inl e)
      have "e = catapult_runtime_error"
      proof -
        from cmp Inl have "CompareChains E (cs @ [Call_CompareChains (m_compareChainOptions this)]) = Inl e"
          by (auto simp add: compareChains_def Let_def split: if_splits)
        with peer show ?thesis by blast
      qed
      with run Pair True cmp Inl show ?thesis
        by (auto simp add: sync_round_compare_error catch_runtime_error_def)
    next
      case (Inr r)
      with run Pair True cmp obtain v es where "syncWithPeer E this r u ds = Some (f, v, es)"
        by (auto simp add: sync_round_started)
      then show ?thesis using peer by (rule syncWithPeer_value)
    qed
  qed
qed

subsection \<open>The cap on unprocessed bytes\<close>

lemma maxSize_without_overflow: "3 * unat (MaxChainBytesPerSyncAttempt config) < 2 ^ 32 \<longrightarrow>
        unat (m_maxSize (m_pUnprocessedElements (DefaultChainSynchronizer_ctor config)))
          = 3 * unat (MaxChainBytesPerSyncAttempt config)"
proof
  assume small: "3 * unat (MaxChainBytesPerSyncAttempt config) < 2 ^ 32"
  have "unat (ucast (3 * MaxChainBytesPerSyncAttempt config) :: 64 word)
      = take_bit 64 (unat (3 * MaxChainBytesPerSyncAttempt config))"
    by (simp add: unsigned_ucast_eq)
  also have "unat (3 * MaxChainBytesPerSyncAttempt config)
      = 3 * unat (MaxChainBytesPerSyncAttempt config)"
    using small by (simp add: unat_word_ariths)
  also have "take_bit 64 (3 * unat (MaxChainBytesPerSyncAttempt config))
      = 3 * unat (MaxChainBytesPerSyncAttempt config)"
    using small by (simp add: take_bit_nat_eq_self_iff)
  finally show "unat (m_maxSize (m_pUnprocessedElements (DefaultChainSynchronizer_ctor config)))
          = 3 * unat (MaxChainBytesPerSyncAttempt config)"
    by (simp add: DefaultChainSynchronizer_ctor_def UnprocessedElements_ctor_def)
qed

section \<open>The claims\<close>

text \<open>
  Claim C4. For every state of \<^verbatim>\<open>UnprocessedElements\<close>, \<open>shouldStartSync\<close> returns true
  and sets \<open>m_hasPendingSync\<close> exactly when \<open>m_numBytes < m_maxSize\<close>, no sync is pending
  and the state is not dirty; in every other case it returns false and leaves the whole
  state as it is, in particular when \<open>m_numBytes\<close> equals \<open>m_maxSize\<close>. The constructor of
  the synchronizer sets \<open>m_maxSize\<close> to three times \<open>MaxChainBytesPerSyncAttempt\<close>, the
  product taken in the arithmetic of the configuration value: it is the product of the
  numbers whenever that product fits the type.
\<close>

theorem C4_shouldStartSync:
  "shouldStartSync u =
     (if m_numBytes u < m_maxSize u \<and> \<not> m_hasPendingSync u \<and> \<not> m_dirty u
      then (True, u\<lparr>m_hasPendingSync := True\<rparr>)
      else (False, u))
   \<and> shouldStartSync (u\<lparr>m_numBytes := m_maxSize u\<rparr>) = (False, u\<lparr>m_numBytes := m_maxSize u\<rparr>)
   \<and> m_maxSize (m_pUnprocessedElements (DefaultChainSynchronizer_ctor config))
       = ucast (3 * MaxChainBytesPerSyncAttempt config)
   \<and> (3 * unat (MaxChainBytesPerSyncAttempt config) < 2 ^ 32 \<longrightarrow>
        unat (m_maxSize (m_pUnprocessedElements (DefaultChainSynchronizer_ctor config)))
          = 3 * unat (MaxChainBytesPerSyncAttempt config))"
  using maxSize_without_overflow [of config]
  by (simp add: shouldStartSync_def DefaultChainSynchronizer_ctor_def
        UnprocessedElements_ctor_def not_less)

theorem C4_shouldStartSync_witness:
  "shouldStartSync (UnprocessedElements_ctor 300) =
     (True, (UnprocessedElements_ctor 300)\<lparr>m_hasPendingSync := True\<rparr>)
   \<and> shouldStartSync ((UnprocessedElements_ctor 300)\<lparr>m_numBytes := 300\<rparr>) =
       (False, (UnprocessedElements_ctor 300)\<lparr>m_numBytes := 300\<rparr>)
   \<and> m_maxSize (m_pUnprocessedElements (DefaultChainSynchronizer_ctor config_100)) = 300
   \<and> unat (m_maxSize (m_pUnprocessedElements (DefaultChainSynchronizer_ctor config_100)))
       = 3 * unat (MaxChainBytesPerSyncAttempt config_100)"
  using C4_shouldStartSync [of "UnprocessedElements_ctor 300" config_100]
  by (simp add: UnprocessedElements_ctor_def config_100_def)

text \<open>
  Claim C5. For every call of \<open>remove\<close> on a queue with a head element: it throws the
  invalid-argument error exactly when the id of the head differs from the id passed; on
  the id of the head it subtracts the recorded size of the head from \<open>m_numBytes\<close>, pops
  the head and sets \<open>m_dirty\<close> to: (\<open>m_numBytes\<close>, after the subtraction, is above zero or a
  sync is pending) and the status is not \<open>Normal\<close>.
\<close>

theorem C5_remove:
  "m_elements u = info # rest \<Longrightarrow>
   UnprocessedElements_remove eid status u =
     (if Id_info info \<noteq> eid then Inl (catapult_invalid_argument eid)
      else Inr (u\<lparr>m_numBytes := m_numBytes u - NumBytes info,
                m_elements := rest,
                m_dirty := ((0 < m_numBytes u - NumBytes info \<or> m_hasPendingSync u)
                            \<and> status \<noteq> Normal)\<rparr>))"
  by (simp add: UnprocessedElements_remove_def front_opt_def hasPendingOperation_def Let_def
        word_gt_0 Normal_neq_commute)

theorem C5_remove_witness:
  "UnprocessedElements_remove 2 Aborted two_in_flight = Inl (catapult_invalid_argument 2)
   \<and> UnprocessedElements_remove 1 Aborted two_in_flight =
       Inr \<lparr>m_elements = [\<lparr>Id_info = 2, EndHeight = 102, NumBytes = 10\<rparr>],
            m_maxSize = 300, m_numBytes = 10, m_hasPendingSync = False, m_dirty = True\<rparr>
   \<and> UnprocessedElements_remove 1 Normal two_in_flight =
       Inr \<lparr>m_elements = [\<lparr>Id_info = 2, EndHeight = 102, NumBytes = 10\<rparr>],
            m_maxSize = 300, m_numBytes = 10, m_hasPendingSync = False, m_dirty = False\<rparr>"
  using C5_remove [of two_in_flight "\<lparr>Id_info = 1, EndHeight = 101, NumBytes = 10\<rparr>"
                      "[\<lparr>Id_info = 2, EndHeight = 102, NumBytes = 10\<rparr>]" 2 Aborted]
        C5_remove [of two_in_flight "\<lparr>Id_info = 1, EndHeight = 101, NumBytes = 10\<rparr>"
                      "[\<lparr>Id_info = 2, EndHeight = 102, NumBytes = 10\<rparr>]" 1 Aborted]
        C5_remove [of two_in_flight "\<lparr>Id_info = 1, EndHeight = 101, NumBytes = 10\<rparr>"
                      "[\<lparr>Id_info = 2, EndHeight = 102, NumBytes = 10\<rparr>]" 1 Normal]
  by (simp add: two_in_flight_def)

text \<open>
  Claim C6. For every range (a block range holds at least one block), \<open>add\<close> returns false
  exactly when the state is dirty, and then changes nothing and calls nobody. When the
  state is not dirty it calls the block range consumer with the range, appends an
  element with the id the consumer returned, the height of the last block of the range
  and the total size of the range, adds that size to \<open>m_numBytes\<close> and returns true.
  \<open>m_maxSize\<close> is not looked at: an \<open>add\<close> that takes \<open>m_numBytes\<close> above \<open>m_maxSize\<close>
  succeeds like any other.
\<close>

theorem C6_add:
  "(m_dirty u \<longrightarrow> UnprocessedElements_add E rng (u, cs) = Inr (False, u, cs))
   \<and> ((\<exists>u' cs'. UnprocessedElements_add E rng (u, cs) = Inr (False, u', cs')) = m_dirty u)
   \<and> (\<not> m_dirty u \<longrightarrow> rng \<noteq> [] \<longrightarrow>
        UnprocessedElements_add E rng (u, cs) =
          Inr (True,
               u\<lparr>m_numBytes := m_numBytes u + totalSize rng,
                 m_elements := m_elements u @
                   [\<lparr>Id_info = blockRangeConsumer E (cs @ [Call_blockRangeConsumer rng]),
                     EndHeight = Height (last rng), NumBytes = totalSize rng\<rparr>]\<rparr>,
               cs @ [Call_blockRangeConsumer rng]))
   \<and> (\<not> m_dirty u \<longrightarrow> rng \<noteq> [] \<longrightarrow> m_maxSize u < m_numBytes u + totalSize rng \<longrightarrow>
        (\<exists>u' cs'. UnprocessedElements_add E rng (u, cs) = Inr (True, u', cs')
                   \<and> m_maxSize u' < m_numBytes u'))"
  by (auto simp add: UnprocessedElements_add_def back_opt_def Let_def split: list.splits)

theorem C6_add_witness:
  "UnprocessedElements_add env_ok range_103 (two_in_flight\<lparr>m_dirty := True\<rparr>, two_calls) =
     Inr (False, two_in_flight\<lparr>m_dirty := True\<rparr>, two_calls)
   \<and> UnprocessedElements_add env_ok range_103 (two_in_flight\<lparr>m_maxSize := 25\<rparr>, two_calls) =
       Inr (True,
            \<lparr>m_elements =
               [\<lparr>Id_info = 1, EndHeight = 101, NumBytes = 10\<rparr>,
                \<lparr>Id_info = 2, EndHeight = 102, NumBytes = 10\<rparr>,
                \<lparr>Id_info = 3, EndHeight = 103, NumBytes = 10\<rparr>],
             m_maxSize = 25, m_numBytes = 30, m_hasPendingSync = False, m_dirty = False\<rparr>,
            two_calls @ [Call_blockRangeConsumer range_103])
   \<and> (\<exists>u' cs'. UnprocessedElements_add env_ok range_103
                   (two_in_flight\<lparr>m_maxSize := 25\<rparr>, two_calls) = Inr (True, u', cs')
                 \<and> m_maxSize u' < m_numBytes u')"
  using C6_add [of "two_in_flight\<lparr>m_dirty := True\<rparr>" env_ok range_103 two_calls]
        C6_add [of "two_in_flight\<lparr>m_maxSize := 25\<rparr>" env_ok range_103 two_calls]
  by (simp add: example_defs totalSize_def)

text \<open>
  Claim C7. \<open>m_numBytes\<close> equals the sum of the recorded sizes of the queued elements: the
  equality holds after construction, each of \<open>shouldStartSync\<close>, \<open>add\<close>, \<open>remove\<close> and
  \<open>clearPendingSync\<close> keeps it, and so it holds in every state a run reaches. The counter
  and the sum are \<^verbatim>\<open>size_t\<close> values; as a number, the counter is the sum of the sizes
  modulo \<open>2 ^ 64\<close>.
\<close>

theorem C7_numBytes_is_sum:
  "m_numBytes (UnprocessedElements_ctor maxSize) = queued_bytes (UnprocessedElements_ctor maxSize)
   \<and> (m_numBytes u = queued_bytes u \<longrightarrow> apply_operation E op (u, cs) = Inr (u', cs')
        \<longrightarrow> m_numBytes u' = queued_bytes u')
   \<and> (run_operations E ops (UnprocessedElements_ctor maxSize, cs0) = Inr (v, cs1)
        \<longrightarrow> m_numBytes v = queued_bytes v
            \<and> unat (m_numBytes v) = (\<Sum>info\<leftarrow>m_elements v. unat (NumBytes info)) mod 2 ^ 64)"
proof (intro conjI impI)
  show "m_numBytes (UnprocessedElements_ctor maxSize)
          = queued_bytes (UnprocessedElements_ctor maxSize)"
    by (rule queued_bytes_ctor)
next
  assume "m_numBytes u = queued_bytes u" "apply_operation E op (u, cs) = Inr (u', cs')"
  then show "m_numBytes u' = queued_bytes u'" by (rule queued_bytes_apply)
next
  assume run: "run_operations E ops (UnprocessedElements_ctor maxSize, cs0) = Inr (v, cs1)"
  then show inv: "m_numBytes v = queued_bytes v"
    using queued_bytes_run [of "(UnprocessedElements_ctor maxSize, cs0)" E ops "(v, cs1)"]
    by (simp add: queued_bytes_ctor)
  show "unat (m_numBytes v) = (\<Sum>info\<leftarrow>m_elements v. unat (NumBytes info)) mod 2 ^ 64"
    unfolding inv queued_bytes_def unat_sum_list_size_t by (simp add: comp_def)
qed

theorem C7_numBytes_is_sum_witness:
  "run_operations env_ok
     [Op_shouldStartSync, Op_add range_101, Op_add range_102, Op_clearPendingSync,
      Op_remove 1 Normal]
     (UnprocessedElements_ctor 300, []) =
   Inr (\<lparr>m_elements = [\<lparr>Id_info = 2, EndHeight = 102, NumBytes = 10\<rparr>],
         m_maxSize = 300, m_numBytes = 10, m_hasPendingSync = False, m_dirty = False\<rparr>,
        two_calls)
   \<and> queued_bytes
        \<lparr>m_elements = [\<lparr>Id_info = 2, EndHeight = 102, NumBytes = 10\<rparr>],
         m_maxSize = 300, m_numBytes = 10, m_hasPendingSync = False, m_dirty = False\<rparr> = 10
   \<and> apply_operation env_ok (Op_add range_103) (two_in_flight, two_calls) =
        Inr (\<lparr>m_elements =
                [\<lparr>Id_info = 1, EndHeight = 101, NumBytes = 10\<rparr>,
                 \<lparr>Id_info = 2, EndHeight = 102, NumBytes = 10\<rparr>,
                 \<lparr>Id_info = 3, EndHeight = 103, NumBytes = 10\<rparr>],
              m_maxSize = 300, m_numBytes = 30, m_hasPendingSync = False, m_dirty = False\<rparr>,
             two_calls @ [Call_blockRangeConsumer range_103])
   \<and> queued_bytes
        \<lparr>m_elements =
           [\<lparr>Id_info = 1, EndHeight = 101, NumBytes = 10\<rparr>,
            \<lparr>Id_info = 2, EndHeight = 102, NumBytes = 10\<rparr>,
            \<lparr>Id_info = 3, EndHeight = 103, NumBytes = 10\<rparr>],
         m_maxSize = 300, m_numBytes = 30, m_hasPendingSync = False, m_dirty = False\<rparr> = 30"
  using C7_numBytes_is_sum [of 300 two_in_flight env_ok "Op_add range_103" two_calls
     "\<lparr>m_elements =
         [\<lparr>Id_info = 1, EndHeight = 101, NumBytes = 10\<rparr>,
          \<lparr>Id_info = 2, EndHeight = 102, NumBytes = 10\<rparr>,
          \<lparr>Id_info = 3, EndHeight = 103, NumBytes = 10\<rparr>],
       m_maxSize = 300, m_numBytes = 30, m_hasPendingSync = False, m_dirty = False\<rparr>"
     "two_calls @ [Call_blockRangeConsumer range_103]"
     "[Op_shouldStartSync, Op_add range_101, Op_add range_102, Op_clearPendingSync,
       Op_remove 1 Normal]"
     "[]"
     "\<lparr>m_elements = [\<lparr>Id_info = 2, EndHeight = 102, NumBytes = 10\<rparr>],
       m_maxSize = 300, m_numBytes = 10, m_hasPendingSync = False, m_dirty = False\<rparr>"
     two_calls]
  by (simp add: unprocessed_defs example_defs queued_bytes_def)

text \<open>
  Claim C1, as amended. A \<open>remove\<close> that succeeds sets \<open>m_dirty\<close> to: (\<open>m_numBytes\<close> is not
  zero or a sync is pending) and the status is not \<open>Normal\<close>, with \<open>m_numBytes\<close> taken after
  the element is popped. So a non-\<open>Normal\<close> status while an operation is pending makes the
  state dirty, and any later \<open>remove\<close> with status \<open>Normal\<close> clears the flag, also while
  operations are pending. While the state is dirty, \<open>shouldStartSync\<close> and \<open>add\<close> return
  false and change nothing, and \<open>clearPendingSync\<close> leaves the state dirty exactly when
  \<open>m_numBytes\<close> is not zero. In every state a run reaches, a dirty state has an operation
  pending.
\<close>

theorem C1_dirty_flag:
  "(UnprocessedElements_remove eid status u = Inr u' \<longrightarrow>
      m_dirty u' = ((m_numBytes u' \<noteq> 0 \<or> m_hasPendingSync u') \<and> status \<noteq> Normal))
   \<and> (m_dirty u \<longrightarrow>
        shouldStartSync u = (False, u)
        \<and> UnprocessedElements_add E rng (u, cs) = Inr (False, u, cs)
        \<and> m_dirty (clearPendingSync u) = (m_numBytes u \<noteq> 0))
   \<and> (run_operations E ops (UnprocessedElements_ctor maxSize, cs0) = Inr (v, cs1) \<longrightarrow>
        m_dirty v \<longrightarrow> m_numBytes v \<noteq> 0 \<or> m_hasPendingSync v)"
proof (intro conjI impI)
  assume "UnprocessedElements_remove eid status u = Inr u'"
  then show "m_dirty u' = ((m_numBytes u' \<noteq> 0 \<or> m_hasPendingSync u') \<and> status \<noteq> Normal)"
    by (auto simp add: UnprocessedElements_remove_def front_opt_def hasPendingOperation_def
          Let_def split: list.splits if_splits)
next
  assume "m_dirty u"
  then show "shouldStartSync u = (False, u)" by (simp add: shouldStartSync_def)
next
  assume "m_dirty u"
  then show "UnprocessedElements_add E rng (u, cs) = Inr (False, u, cs)"
    by (simp add: UnprocessedElements_add_def)
next
  assume "m_dirty u"
  then show "m_dirty (clearPendingSync u) = (m_numBytes u \<noteq> 0)"
    by (auto simp add: clearPendingSync_def hasPendingOperation_def Let_def)
next
  assume "run_operations E ops (UnprocessedElements_ctor maxSize, cs0) = Inr (v, cs1)" "m_dirty v"
  then show "m_numBytes v \<noteq> 0 \<or> m_hasPendingSync v"
    using dirty_pending_run [of "(UnprocessedElements_ctor maxSize, cs0)" E ops "(v, cs1)"]
    by (auto simp add: UnprocessedElements_ctor_def hasPendingOperation_def)
qed

theorem C1_dirty_flag_witness:
  "UnprocessedElements_remove 1 Aborted two_in_flight = Inr after_abort
   \<and> m_dirty after_abort
   \<and> shouldStartSync after_abort = (False, after_abort)
   \<and> UnprocessedElements_add env_ok range_103 (after_abort, two_calls) =
       Inr (False, after_abort, two_calls)
   \<and> m_dirty (clearPendingSync after_abort)
   \<and> UnprocessedElements_remove 2 Aborted after_abort = Inr (UnprocessedElements_ctor 300)
   \<and> run_operations env_ok [Op_add range_101, Op_add range_102, Op_remove 1 Aborted]
        (UnprocessedElements_ctor 300, []) = Inr (after_abort, two_calls)
   \<and> m_numBytes after_abort = 10"
  using C1_dirty_flag [of 1 Aborted two_in_flight after_abort env_ok range_103 two_calls
          "[Op_add range_101, Op_add range_102, Op_remove 1 Aborted]" 300 "[]"
          after_abort two_calls]
        C1_dirty_flag [of 2 Aborted after_abort "UnprocessedElements_ctor 300" env_ok range_103
          two_calls "[Op_add range_101, Op_add range_102, Op_remove 1 Aborted]" 300 "[]"
          after_abort two_calls]
  by (simp add: unprocessed_defs example_defs)

text \<open>
  The claim as it was stated fails on a run with three ranges in flight: the first
  completes with status \<open>Aborted\<close> and the state is dirty; the second then completes with
  status \<open>Normal\<close> and the flag is cleared although the third range is still queued
  (\<open>m_numBytes = 10\<close>).
\<close>

theorem C1_dirty_flag_counterexample:
  "run_operations env_ok
     [Op_add range_101, Op_add range_102, Op_add range_103, Op_remove 1 Aborted]
     (UnprocessedElements_ctor 300, []) =
   Inr (\<lparr>m_elements = [\<lparr>Id_info = 2, EndHeight = 102, NumBytes = 10\<rparr>,
                        \<lparr>Id_info = 3, EndHeight = 103, NumBytes = 10\<rparr>],
         m_maxSize = 300, m_numBytes = 20, m_hasPendingSync = False, m_dirty = True\<rparr>,
        two_calls @ [Call_blockRangeConsumer range_103])
   \<and> run_operations env_ok
        [Op_add range_101, Op_add range_102, Op_add range_103, Op_remove 1 Aborted,
         Op_remove 2 Normal]
        (UnprocessedElements_ctor 300, []) =
      Inr (\<lparr>m_elements = [\<lparr>Id_info = 3, EndHeight = 103, NumBytes = 10\<rparr>],
            m_maxSize = 300, m_numBytes = 10, m_hasPendingSync = False, m_dirty = False\<rparr>,
           two_calls @ [Call_blockRangeConsumer range_103])"
  by (simp add: unprocessed_defs example_defs)

text \<open>
  Claim C10. \<open>remove\<close> reads the front of the queue without a check: the read is the
  optional \<open>front_opt\<close>, and \<open>remove\<close> ends in \<open>front_of_empty_queue\<close> exactly when the
  queue is empty. It does not when an element with the id passed is queued. In a run
  from the constructed state in which every \<open>remove\<close> is the callback of a range handed
  off before, fired once, no call ends in \<open>front_of_empty_queue\<close>.
\<close>

theorem C10_remove_front:
  "((UnprocessedElements_remove eid status u = Inl front_of_empty_queue) = (m_elements u = []))
   \<and> ((\<exists>info \<in> set (m_elements u). Id_info info = eid) \<longrightarrow>
        UnprocessedElements_remove eid status u \<noteq> Inl front_of_empty_queue)
   \<and> (callbacks_fire_once E ops (UnprocessedElements_ctor maxSize, cs0) [] \<longrightarrow>
        run_operations E ops (UnprocessedElements_ctor maxSize, cs0) \<noteq> Inl front_of_empty_queue)"
proof (intro conjI impI)
  show empty:
    "(UnprocessedElements_remove eid status u = Inl front_of_empty_queue) = (m_elements u = [])"
    by (auto simp add: UnprocessedElements_remove_def front_opt_def Let_def split: list.splits)
  assume "\<exists>info \<in> set (m_elements u). Id_info info = eid"
  then have "m_elements u \<noteq> []" by auto
  with empty show "UnprocessedElements_remove eid status u \<noteq> Inl front_of_empty_queue" by simp
next
  assume "callbacks_fire_once E ops (UnprocessedElements_ctor maxSize, cs0) []"
  then show
    "run_operations E ops (UnprocessedElements_ctor maxSize, cs0) \<noteq> Inl front_of_empty_queue"
    by (intro fire_once_no_empty_front [where pending = "[]"])
       (simp_all add: UnprocessedElements_ctor_def)
qed

theorem C10_remove_front_witness:
  "UnprocessedElements_remove 1 Normal (UnprocessedElements_ctor 300) = Inl front_of_empty_queue
   \<and> UnprocessedElements_remove 2 Normal two_in_flight = Inl (catapult_invalid_argument 2)
   \<and> callbacks_fire_once env_ok
        [Op_shouldStartSync, Op_add range_101, Op_add range_102, Op_clearPendingSync,
         Op_remove 1 Normal, Op_remove 2 Normal]
        (UnprocessedElements_ctor 300, []) []
   \<and> run_operations env_ok
        [Op_shouldStartSync, Op_add range_101, Op_add range_102, Op_clearPendingSync,
         Op_remove 1 Normal, Op_remove 2 Normal]
        (UnprocessedElements_ctor 300, []) =
      Inr (UnprocessedElements_ctor 300, two_calls)"
  using C10_remove_front [of 1 Normal "UnprocessedElements_ctor 300" env_ok
          "[Op_shouldStartSync, Op_add range_101, Op_add range_102, Op_clearPendingSync,
            Op_remove 1 Normal, Op_remove 2 Normal]" 300 "[]"]
        C10_remove_front [of 2 Normal two_in_flight env_ok
          "[Op_shouldStartSync, Op_add range_101, Op_add range_102, Op_clearPendingSync,
            Op_remove 1 Normal, Op_remove 2 Normal]" 300 "[]"]
  by (simp add: unprocessed_defs example_defs)

text \<open>
  Claim C3. One turn of the pull loop, for every supplier, height, fork depth, aggregator
  and state. An empty reply ends the pull with what the aggregator holds. A reply with
  blocks is appended to the aggregator, its number of blocks added to the count; when the
  count is then at least the fork depth the pull ends (always when the fork depth is 0,
  after this one request), otherwise the loop goes on with a request at the height of
  the last block of the reply plus one. At the end, an aggregator whose count is zero
  gives \<open>Neutral\<close>; otherwise the ranges are merged in order and handed to \<open>add\<close>, and the
  result is \<open>Success\<close> when \<open>add\<close> returns true and \<open>Neutral\<close> when it returns false.
\<close>

theorem C3_pull_loop:
  "(supplier height cs = (Inr [], ds) \<longrightarrow>
      ChainBlocksFrom supplier E height forkDepth agg u cs =
        Some (CompleteChainBlocksFrom E agg u ds))
   \<and> (supplier height cs = (Inr rng, ds) \<longrightarrow> rng \<noteq> [] \<longrightarrow>
        RangeAggregator_add rng agg =
          \<lparr>m_numBlocks = m_numBlocks agg + of_nat (length rng), m_ranges = m_ranges agg @ [rng]\<rparr>
        \<and> (forkDepth \<le> m_numBlocks agg + of_nat (length rng) \<longrightarrow>
             ChainBlocksFrom supplier E height forkDepth agg u cs =
               Some (CompleteChainBlocksFrom E (RangeAggregator_add rng agg) u ds))
        \<and> (forkDepth = 0 \<longrightarrow>
             ChainBlocksFrom supplier E height forkDepth agg u cs =
               Some (CompleteChainBlocksFrom E (RangeAggregator_add rng agg) u ds))
        \<and> (\<not> forkDepth \<le> m_numBlocks agg + of_nat (length rng) \<longrightarrow>
             ChainBlocksFrom supplier E height forkDepth agg u cs =
               ChainBlocksFrom supplier E (Height (last rng) + 1) forkDepth
                 (RangeAggregator_add rng agg) u ds))
   \<and> (m_numBlocks agg = 0 \<longrightarrow> CompleteChainBlocksFrom E agg u cs = (Inr Neutral, u, cs))
   \<and> (m_numBlocks agg \<noteq> 0 \<longrightarrow>
        (UnprocessedElements_add E (concat (m_ranges agg)) (u, cs) = Inr (True, u', cs') \<longrightarrow>
           CompleteChainBlocksFrom E agg u cs = (Inr Success, u', cs'))
        \<and> (UnprocessedElements_add E (concat (m_ranges agg)) (u, cs) = Inr (False, u', cs') \<longrightarrow>
             CompleteChainBlocksFrom E agg u cs = (Inr Neutral, u', cs')))"
proof -
  have add_eq: "RangeAggregator_add rng agg =
      \<lparr>m_numBlocks = m_numBlocks agg + of_nat (length rng), m_ranges = m_ranges agg @ [rng]\<rparr>"
    by (simp add: RangeAggregator_add_def range_size_def Let_def)
  have nb: "m_numBlocks (RangeAggregator_add rng agg) = m_numBlocks agg + of_nat (length rng)"
    by (simp add: add_eq)
  show ?thesis
  proof (intro conjI impI)
    assume "supplier height cs = (Inr [], ds)"
    then show "ChainBlocksFrom supplier E height forkDepth agg u cs =
        Some (CompleteChainBlocksFrom E agg u ds)"
      by (rule ChainBlocksFrom_empty_reply)
  next
    show "RangeAggregator_add rng agg =
      \<lparr>m_numBlocks = m_numBlocks agg + of_nat (length rng), m_ranges = m_ranges agg @ [rng]\<rparr>"
      by (rule add_eq)
  next
    assume "supplier height cs = (Inr rng, ds)" "rng \<noteq> []"
      "forkDepth \<le> m_numBlocks agg + of_nat (length rng)"
    then show "ChainBlocksFrom supplier E height forkDepth agg u cs =
               Some (CompleteChainBlocksFrom E (RangeAggregator_add rng agg) u ds)"
      by (intro ChainBlocksFrom_enough) (simp_all add: nb)
  next
    assume "supplier height cs = (Inr rng, ds)" "rng \<noteq> []" "forkDepth = 0"
    then show "ChainBlocksFrom supplier E height forkDepth agg u cs =
               Some (CompleteChainBlocksFrom E (RangeAggregator_add rng agg) u ds)"
      by (intro ChainBlocksFrom_enough) simp_all
  next
    assume "supplier height cs = (Inr rng, ds)" "rng \<noteq> []"
      "\<not> forkDepth \<le> m_numBlocks agg + of_nat (length rng)"
    then show "ChainBlocksFrom supplier E height forkDepth agg u cs =
               ChainBlocksFrom supplier E (Height (last rng) + 1) forkDepth
                 (RangeAggregator_add rng agg) u ds"
      by (intro ChainBlocksFrom_more) (simp_all add: nb)
  next
    assume "m_numBlocks agg = 0"
    then show "CompleteChainBlocksFrom E agg u cs = (Inr Neutral, u, cs)"
      by (simp add: CompleteChainBlocksFrom_def RangeAggregator_empty_def)
  next
    assume "m_numBlocks agg \<noteq> 0"
      "UnprocessedElements_add E (concat (m_ranges agg)) (u, cs) = Inr (True, u', cs')"
    then show "CompleteChainBlocksFrom E agg u cs = (Inr Success, u', cs')"
      by (simp add: CompleteChainBlocksFrom_def RangeAggregator_empty_def
            RangeAggregator_merge_def MergeRanges_def)
  next
    assume "m_numBlocks agg \<noteq> 0"
      "UnprocessedElements_add E (concat (m_ranges agg)) (u, cs) = Inr (False, u', cs')"
    then show "CompleteChainBlocksFrom E agg u cs = (Inr Neutral, u', cs')"
      by (simp add: CompleteChainBlocksFrom_def RangeAggregator_empty_def
            RangeAggregator_merge_def MergeRanges_def)
  qed
qed

theorem C3_pull_loop_witness:
  "ChainBlocksFrom (CreateFutureSupplier env_ok options_100) env_ok 101 5 RangeAggregator_ctor
     (UnprocessedElements_ctor 300) [] =
   Some (Inr Success,
         \<lparr>m_elements = [\<lparr>Id_info = 1, EndHeight = 102, NumBytes = 20\<rparr>],
          m_maxSize = 300, m_numBytes = 20, m_hasPendingSync = False, m_dirty = False\<rparr>,
         [Call_blocksFrom 101 options_100, Call_blocksFrom 102 options_100,
          Call_blocksFrom 103 options_100,
          Call_blockRangeConsumer (range_101 @ range_102)])
   \<and> ChainBlocksFrom (CreateFutureSupplier env_ok options_100) env_ok 101 0 RangeAggregator_ctor
       (UnprocessedElements_ctor 300) [] =
     Some (Inr Success,
           \<lparr>m_elements = [\<lparr>Id_info = 1, EndHeight = 101, NumBytes = 10\<rparr>],
            m_maxSize = 300, m_numBytes = 10, m_hasPendingSync = False, m_dirty = False\<rparr>,
           [Call_blocksFrom 101 options_100, Call_blockRangeConsumer range_101])
   \<and> ChainBlocksFrom (CreateFutureSupplier env_ok options_100) env_ok 103 5 RangeAggregator_ctor
       (UnprocessedElements_ctor 300) [] =
     Some (Inr Neutral, UnprocessedElements_ctor 300, [Call_blocksFrom 103 options_100])
   \<and> ChainBlocksFrom (CreateFutureSupplier env_ok options_100) env_ok 101 0 RangeAggregator_ctor
       after_abort [] =
     Some (Inr Neutral, after_abort, [Call_blocksFrom 101 options_100])"
proof -
  let ?S = "CreateFutureSupplier env_ok options_100"
  let ?c101 = "Call_blocksFrom 101 options_100"
  let ?c102 = "Call_blocksFrom 102 options_100"
  let ?c103 = "Call_blocksFrom 103 options_100"
  let ?u = "UnprocessedElements_ctor 300"
  let ?a1 = "RangeAggregator_add range_101 RangeAggregator_ctor"
  let ?a2 = "RangeAggregator_add range_102 ?a1"
  have s1: "?S 101 [] = (Inr range_101, [?c101])"
    by (simp add: CreateFutureSupplier_def example_defs)
  have s2: "?S 102 [?c101] = (Inr range_102, [?c101, ?c102])"
    by (simp add: CreateFutureSupplier_def example_defs)
  have s3: "?S 103 [?c101, ?c102] = (Inr [], [?c101, ?c102, ?c103])"
    by (simp add: CreateFutureSupplier_def example_defs)
  have s4: "?S 103 [] = (Inr [], [?c103])"
    by (simp add: CreateFutureSupplier_def example_defs)
  have step1: "ChainBlocksFrom ?S env_ok 101 5 RangeAggregator_ctor ?u [] =
      ChainBlocksFrom ?S env_ok 102 5 ?a1 ?u [?c101]"
    using C3_pull_loop [where supplier = ?S and height = 101 and cs = "[]" and ds = "[?c101]"
        and rng = range_101 and forkDepth = 5 and agg = RangeAggregator_ctor and E = env_ok
        and u = ?u] s1
    by (simp add: RangeAggregator_ctor_def range_101_def word_le_nat_alt)
  have step2: "ChainBlocksFrom ?S env_ok 102 5 ?a1 ?u [?c101] =
      ChainBlocksFrom ?S env_ok 103 5 ?a2 ?u [?c101, ?c102]"
    using C3_pull_loop [where supplier = ?S and height = 102 and cs = "[?c101]"
        and ds = "[?c101, ?c102]" and rng = range_102 and forkDepth = 5 and agg = ?a1
        and E = env_ok and u = ?u] s2
    by (simp add: puller_defs range_101_def range_102_def word_le_nat_alt)
  have step3: "ChainBlocksFrom ?S env_ok 103 5 ?a2 ?u [?c101, ?c102] =
      Some (CompleteChainBlocksFrom env_ok ?a2 ?u [?c101, ?c102, ?c103])"
    using C3_pull_loop [where supplier = ?S and height = 103 and cs = "[?c101, ?c102]"
        and ds = "[?c101, ?c102, ?c103]" and forkDepth = 5 and agg = ?a2
        and E = env_ok and u = ?u] s3
    by simp
  have done3: "CompleteChainBlocksFrom env_ok ?a2 ?u [?c101, ?c102, ?c103] =
      (Inr Success,
       \<lparr>m_elements = [\<lparr>Id_info = 1, EndHeight = 102, NumBytes = 20\<rparr>],
        m_maxSize = 300, m_numBytes = 20, m_hasPendingSync = False, m_dirty = False\<rparr>,
       [?c101, ?c102, ?c103, Call_blockRangeConsumer (range_101 @ range_102)])"
    using C3_pull_loop [where agg = ?a2 and E = env_ok and u = ?u
        and cs = "[?c101, ?c102, ?c103]"
        and u' = "\<lparr>m_elements = [\<lparr>Id_info = 1, EndHeight = 102, NumBytes = 20\<rparr>],
          m_maxSize = 300, m_numBytes = 20, m_hasPendingSync = False, m_dirty = False\<rparr>"
        and cs' = "[?c101, ?c102, ?c103, Call_blockRangeConsumer (range_101 @ range_102)]"]
    by (simp add: puller_defs unprocessed_defs example_defs)
  have full: "ChainBlocksFrom ?S env_ok 101 5 RangeAggregator_ctor ?u [] =
      Some (Inr Success,
            \<lparr>m_elements = [\<lparr>Id_info = 1, EndHeight = 102, NumBytes = 20\<rparr>],
             m_maxSize = 300, m_numBytes = 20, m_hasPendingSync = False, m_dirty = False\<rparr>,
            [?c101, ?c102, ?c103, Call_blockRangeConsumer (range_101 @ range_102)])"
    by (simp only: step1 step2 step3 done3)
  have single: "ChainBlocksFrom ?S env_ok 101 0 RangeAggregator_ctor ?u [] =
      Some (CompleteChainBlocksFrom env_ok ?a1 ?u [?c101])"
    using C3_pull_loop [where supplier = ?S and height = 101 and cs = "[]" and ds = "[?c101]"
        and rng = range_101 and forkDepth = 0 and agg = RangeAggregator_ctor and E = env_ok
        and u = ?u] s1
    by (simp add: range_101_def)
  have done1: "CompleteChainBlocksFrom env_ok ?a1 ?u [?c101] =
      (Inr Success,
       \<lparr>m_elements = [\<lparr>Id_info = 1, EndHeight = 101, NumBytes = 10\<rparr>],
        m_maxSize = 300, m_numBytes = 10, m_hasPendingSync = False, m_dirty = False\<rparr>,
       [?c101, Call_blockRangeConsumer range_101])"
    by (simp add: puller_defs unprocessed_defs example_defs)
  have one: "ChainBlocksFrom ?S env_ok 101 0 RangeAggregator_ctor ?u [] =
      Some (Inr Success,
            \<lparr>m_elements = [\<lparr>Id_info = 1, EndHeight = 101, NumBytes = 10\<rparr>],
             m_maxSize = 300, m_numBytes = 10, m_hasPendingSync = False, m_dirty = False\<rparr>,
            [?c101, Call_blockRangeConsumer range_101])"
    by (simp only: single done1)
  have silent: "ChainBlocksFrom ?S env_ok 103 5 RangeAggregator_ctor ?u [] =
      Some (Inr Neutral, ?u, [?c103])"
    using C3_pull_loop [where supplier = ?S and height = 103 and cs = "[]" and ds = "[?c103]"
        and forkDepth = 5 and agg = RangeAggregator_ctor and E = env_ok and u = ?u]
    by (simp add: puller_defs example_defs)
  have refused: "ChainBlocksFrom ?S env_ok 101 0 RangeAggregator_ctor after_abort [] =
      Some (Inr Neutral, after_abort, [?c101])"
    using C3_pull_loop [where supplier = ?S and height = 101 and cs = "[]" and ds = "[?c101]"
        and rng = range_101 and forkDepth = 0 and agg = RangeAggregator_ctor and E = env_ok
        and u = after_abort]
    by (simp add: puller_defs unprocessed_defs example_defs)
  show ?thesis
    by (rule conjI [OF full conjI [OF one conjI [OF silent refused]]])
qed

text \<open>
  Claim C2. For every round of the synchronizer: when \<open>shouldStartSync\<close> returns false the
  round resolves \<open>Neutral\<close> with nothing changed and nobody called. Otherwise the verdict
  \<open>r\<close> of the comparison decides. On \<open>Remote_Reported_Equal_Chain_Score\<close> the short
  hashes supplier is called, then the unconfirmed transactions of the peer are requested
  with what the supplier returned; the range that comes back is handed to the transaction
  range consumer and the round resolves \<open>Neutral\<close>, and when the request fails with a
  runtime error the round resolves \<open>Failure\<close>. On \<open>Remote_Reported_Lower_Chain_Score\<close>
  the round resolves \<open>Neutral\<close>. On \<open>Remote_Is_Not_Synced\<close> the round is the pull loop
  from \<open>CommonBlockHeight r + 1\<close> with \<open>ForkDepth r\<close> and an empty aggregator, and
  resolves as the loop does. On every other code the round resolves \<open>Failure\<close>. A round
  that started ends with \<open>clearPendingSync\<close>.
\<close>

theorem C2_sync_round_dispatch:
  "(shouldStartSync (m_pUnprocessedElements this) = (False, v) \<longrightarrow>
      sync_round E this cs = Some (Inr Neutral, this, cs))
   \<and> (shouldStartSync (m_pUnprocessedElements this) = (True, u) \<longrightarrow>
        compareChains E this u cs = (Inr r, ds) \<longrightarrow>
        (Code r = Remote_Reported_Equal_Chain_Score \<longrightarrow>
           (unconfirmedTransactions E
              (ds @ [Call_shortHashesSupplier,
                     Call_unconfirmedTransactions
                       (shortHashesSupplier E (ds @ [Call_shortHashesSupplier]))]) = Inr txs \<longrightarrow>
            sync_round E this cs =
              Some (Inr Neutral, this\<lparr>m_pUnprocessedElements := clearPendingSync u\<rparr>,
                    ds @ [Call_shortHashesSupplier,
                          Call_unconfirmedTransactions
                            (shortHashesSupplier E (ds @ [Call_shortHashesSupplier])),
                          Call_transactionRangeConsumer txs]))
         \<and> (unconfirmedTransactions E
              (ds @ [Call_shortHashesSupplier,
                     Call_unconfirmedTransactions
                       (shortHashesSupplier E (ds @ [Call_shortHashesSupplier]))])
               = Inl catapult_runtime_error \<longrightarrow>
            sync_round E this cs =
              Some (Inr Failure, this\<lparr>m_pUnprocessedElements := clearPendingSync u\<rparr>,
                    ds @ [Call_shortHashesSupplier,
                          Call_unconfirmedTransactions
                            (shortHashesSupplier E (ds @ [Call_shortHashesSupplier]))])))
        \<and> (Code r = Remote_Reported_Lower_Chain_Score \<longrightarrow>
             sync_round E this cs =
               Some (Inr Neutral, this\<lparr>m_pUnprocessedElements := clearPendingSync u\<rparr>, ds))
        \<and> (Code r = Remote_Is_Not_Synced \<longrightarrow>
             sync_round E this cs =
               map_option
                 (\<lambda>(f, v, es). (f, this\<lparr>m_pUnprocessedElements := clearPendingSync v\<rparr>, es))
                 (ChainBlocksFrom (CreateFutureSupplier E (m_blocksFromOptions this)) E
                    (CommonBlockHeight r + 1) (ForkDepth r) RangeAggregator_ctor u ds))
        \<and> (Code r \<noteq> Remote_Reported_Equal_Chain_Score \<longrightarrow>
            Code r \<noteq> Remote_Reported_Lower_Chain_Score \<longrightarrow>
            Code r \<noteq> Remote_Is_Not_Synced \<longrightarrow>
             sync_round E this cs =
               Some (Inr Failure, this\<lparr>m_pUnprocessedElements := clearPendingSync u\<rparr>, ds)))"
proof (intro conjI impI)
  assume gate: "shouldStartSync (m_pUnprocessedElements this) = (False, v)"
  then have "v = m_pUnprocessedElements this" by (rule shouldStartSync_False)
  with gate show "sync_round E this cs = Some (Inr Neutral, this, cs)"
    by (simp add: sync_round_def)
next
  assume "shouldStartSync (m_pUnprocessedElements this) = (True, u)"
    "compareChains E this u cs = (Inr r, ds)"
    "Code r = Remote_Reported_Equal_Chain_Score"
    "unconfirmedTransactions E
       (ds @ [Call_shortHashesSupplier,
              Call_unconfirmedTransactions
                (shortHashesSupplier E (ds @ [Call_shortHashesSupplier]))]) = Inr txs"
  then show "sync_round E this cs =
      Some (Inr Neutral, this\<lparr>m_pUnprocessedElements := clearPendingSync u\<rparr>,
            ds @ [Call_shortHashesSupplier,
                  Call_unconfirmedTransactions
                    (shortHashesSupplier E (ds @ [Call_shortHashesSupplier])),
                  Call_transactionRangeConsumer txs])"
    by (simp add: sync_round_started syncWithPeer_def Let_def)
next
  assume "shouldStartSync (m_pUnprocessedElements this) = (True, u)"
    "compareChains E this u cs = (Inr r, ds)"
    "Code r = Remote_Reported_Equal_Chain_Score"
    "unconfirmedTransactions E
       (ds @ [Call_shortHashesSupplier,
              Call_unconfirmedTransactions
                (shortHashesSupplier E (ds @ [Call_shortHashesSupplier]))])
       = Inl catapult_runtime_error"
  then show "sync_round E this cs =
      Some (Inr Failure, this\<lparr>m_pUnprocessedElements := clearPendingSync u\<rparr>,
            ds @ [Call_shortHashesSupplier,
                  Call_unconfirmedTransactions
                    (shortHashesSupplier E (ds @ [Call_shortHashesSupplier]))])"
    by (simp add: sync_round_started syncWithPeer_def Let_def catch_runtime_error_def)
next
  assume "shouldStartSync (m_pUnprocessedElements this) = (True, u)"
    "compareChains E this u cs = (Inr r, ds)"
    "Code r = Remote_Reported_Lower_Chain_Score"
  then show "sync_round E this cs =
      Some (Inr Neutral, this\<lparr>m_pUnprocessedElements := clearPendingSync u\<rparr>, ds)"
    by (simp add: sync_round_started syncWithPeer_def ToNodeInteractionResult_def)
next
  assume "shouldStartSync (m_pUnprocessedElements this) = (True, u)"
    "compareChains E this u cs = (Inr r, ds)"
    "Code r = Remote_Is_Not_Synced"
  then show "sync_round E this cs =
      map_option (\<lambda>(f, v, es). (f, this\<lparr>m_pUnprocessedElements := clearPendingSync v\<rparr>, es))
        (ChainBlocksFrom (CreateFutureSupplier E (m_blocksFromOptions this)) E
           (CommonBlockHeight r + 1) (ForkDepth r) RangeAggregator_ctor u ds)"
    by (simp add: sync_round_started syncWithPeer_def)
next
  assume "shouldStartSync (m_pUnprocessedElements this) = (True, u)"
    "compareChains E this u cs = (Inr r, ds)"
    "Code r \<noteq> Remote_Reported_Equal_Chain_Score"
    "Code r \<noteq> Remote_Reported_Lower_Chain_Score"
    "Code r \<noteq> Remote_Is_Not_Synced"
  then show "sync_round E this cs =
      Some (Inr Failure, this\<lparr>m_pUnprocessedElements := clearPendingSync u\<rparr>, ds)"
    by (cases "Code r") (simp_all add: sync_round_started syncWithPeer_def ToNodeInteractionResult_def)
qed

theorem C2_sync_round_dispatch_witness:
  "sync_round env_ok (sync_100\<lparr>m_pUnprocessedElements := after_abort\<rparr>) [] =
     Some (Inr Neutral, sync_100\<lparr>m_pUnprocessedElements := after_abort\<rparr>, [])
   \<and> sync_round env_equal sync_100 [] =
       Some (Inr Neutral, sync_100,
             [compare_call, Call_shortHashesSupplier, Call_unconfirmedTransactions [7],
              Call_transactionRangeConsumer [[1, 2], [3]]])
   \<and> sync_round env_transactions_fail sync_100 [] =
       Some (Inr Failure, sync_100,
             [compare_call, Call_shortHashesSupplier, Call_unconfirmedTransactions [7]])
   \<and> sync_round env_lower sync_100 [] = Some (Inr Neutral, sync_100, [compare_call])
   \<and> sync_round env_forked sync_100 [] = Some (Inr Failure, sync_100, [compare_call])
   \<and> sync_round env_ok sync_100 [] =
       Some (Inr Success,
             sync_100\<lparr>m_pUnprocessedElements :=
               \<lparr>m_elements = [\<lparr>Id_info = 1, EndHeight = 102, NumBytes = 20\<rparr>],
                m_maxSize = 300, m_numBytes = 20, m_hasPendingSync = False, m_dirty = False\<rparr>\<rparr>,
             [compare_call, Call_blocksFrom 101 options_100, Call_blocksFrom 102 options_100,
              Call_blockRangeConsumer (range_101 @ range_102)])"
proof -
  have gate: "shouldStartSync (m_pUnprocessedElements sync_100) = (True, started)"
    by (simp add: sync_defs unprocessed_defs example_defs)
  have closed: "shouldStartSync
      (m_pUnprocessedElements (sync_100\<lparr>m_pUnprocessedElements := after_abort\<rparr>)) =
      (False, after_abort)"
    by (simp add: unprocessed_defs example_defs)
  have refused: "sync_round env_ok (sync_100\<lparr>m_pUnprocessedElements := after_abort\<rparr>) [] =
      Some (Inr Neutral, sync_100\<lparr>m_pUnprocessedElements := after_abort\<rparr>, [])"
    using C2_sync_round_dispatch [where this = "sync_100\<lparr>m_pUnprocessedElements := after_abort\<rparr>"
        and v = after_abort and E = env_ok and cs = "[]"] closed
    by simp
  have cleared: "sync_100\<lparr>m_pUnprocessedElements := clearPendingSync started\<rparr> = sync_100"
    by (simp add: sync_defs unprocessed_defs example_defs)
  have equal: "sync_round env_equal sync_100 [] =
      Some (Inr Neutral, sync_100,
            [compare_call, Call_shortHashesSupplier, Call_unconfirmedTransactions [7],
             Call_transactionRangeConsumer [[1, 2], [3]]])"
    using C2_sync_round_dispatch [where this = sync_100 and u = started and E = env_equal
        and cs = "[]" and ds = "[compare_call]" and txs = "[[1, 2], [3]]"
        and r = "\<lparr>Code = Remote_Reported_Equal_Chain_Score, CommonBlockHeight = 100,
                  ForkDepth = 0\<rparr>"] gate cleared
    by (simp add: sync_defs unprocessed_defs example_defs)
  have failed: "sync_round env_transactions_fail sync_100 [] =
      Some (Inr Failure, sync_100,
            [compare_call, Call_shortHashesSupplier, Call_unconfirmedTransactions [7]])"
    using C2_sync_round_dispatch [where this = sync_100 and u = started
        and E = env_transactions_fail
        and cs = "[]" and ds = "[compare_call]"
        and r = "\<lparr>Code = Remote_Reported_Equal_Chain_Score, CommonBlockHeight = 100,
                  ForkDepth = 0\<rparr>"] gate cleared
    by (simp add: sync_defs unprocessed_defs example_defs)
  have lower: "sync_round env_lower sync_100 [] = Some (Inr Neutral, sync_100, [compare_call])"
    using C2_sync_round_dispatch [where this = sync_100 and u = started and E = env_lower
        and cs = "[]" and ds = "[compare_call]"
        and r = "\<lparr>Code = Remote_Reported_Lower_Chain_Score, CommonBlockHeight = 100,
                  ForkDepth = 0\<rparr>"] gate cleared
    by (simp add: sync_defs unprocessed_defs example_defs)
  have forked: "sync_round env_forked sync_100 [] = Some (Inr Failure, sync_100, [compare_call])"
    using C2_sync_round_dispatch [where this = sync_100 and u = started and E = env_forked
        and cs = "[]" and ds = "[compare_call]"
        and r = "\<lparr>Code = Remote_Is_Forked, CommonBlockHeight = 100, ForkDepth = 0\<rparr>"]
      gate cleared
    by (simp add: sync_defs unprocessed_defs example_defs)
  have opts: "m_blocksFromOptions sync_100 = options_100"
    by (simp add: sync_defs example_defs)
  have pulled: "sync_round env_ok sync_100 [] =
      Some (Inr Success,
            sync_100\<lparr>m_pUnprocessedElements :=
              \<lparr>m_elements = [\<lparr>Id_info = 1, EndHeight = 102, NumBytes = 20\<rparr>],
               m_maxSize = 300, m_numBytes = 20, m_hasPendingSync = False, m_dirty = False\<rparr>\<rparr>,
            [compare_call, Call_blocksFrom 101 options_100, Call_blocksFrom 102 options_100,
             Call_blockRangeConsumer (range_101 @ range_102)])"
    using C2_sync_round_dispatch [where this = sync_100 and u = started and E = env_ok
        and cs = "[]" and ds = "[compare_call]"
        and r = "\<lparr>Code = Remote_Is_Not_Synced, CommonBlockHeight = 100, ForkDepth = 2\<rparr>"]
      gate pull_after_compare
    by (simp add: opts) (simp add: sync_defs unprocessed_defs example_defs)
  show ?thesis
    by (rule conjI [OF refused conjI [OF equal conjI [OF failed conjI [OF lower
          conjI [OF forked pulled]]]]])
qed

text \<open>
  Claim C8. \<open>UnprocessedElements\<close> is non-empty when \<open>m_numBytes\<close> is not zero. Then
  \<open>compareChains\<close> calls nobody and returns the result \<open>Remote_Is_Not_Synced\<close> with the
  common height \<open>maxHeight\<close>, the end height of the last element queued (0 for an empty
  queue), and fork depth 0. A round that starts in such a state is the pull loop from
  \<open>maxHeight + 1\<close> with fork depth 0, and none of the calls it makes is a chain
  comparison.
\<close>

theorem C8_fast_path:
  "(UnprocessedElements_empty u = (m_numBytes u = 0))
   \<and> (\<not> UnprocessedElements_empty u \<longrightarrow>
        compareChains E this u cs =
          (Inr \<lparr>Code = Remote_Is_Not_Synced, CommonBlockHeight = maxHeight u, ForkDepth = 0\<rparr>,
           cs))
   \<and> (m_elements u = [] \<longrightarrow> maxHeight u = 0)
   \<and> (m_elements u = es @ [info] \<longrightarrow> maxHeight u = EndHeight info)
   \<and> (\<not> UnprocessedElements_empty (m_pUnprocessedElements this) \<longrightarrow>
        shouldStartSync (m_pUnprocessedElements this) = (True, v) \<longrightarrow>
          sync_round E this cs =
            map_option
              (\<lambda>(f, w, es). (f, this\<lparr>m_pUnprocessedElements := clearPendingSync w\<rparr>, es))
              (ChainBlocksFrom (CreateFutureSupplier E (m_blocksFromOptions this)) E
                 (maxHeight (m_pUnprocessedElements this) + 1) 0 RangeAggregator_ctor v cs))
   \<and> (\<not> UnprocessedElements_empty (m_pUnprocessedElements this) \<longrightarrow>
        sync_round E this cs = Some (f, this', cs') \<longrightarrow>
          (\<exists>new. cs' = cs @ new \<and> (\<forall>opts. Call_CompareChains opts \<notin> set new)))"
proof (intro conjI impI)
  show "UnprocessedElements_empty u = (m_numBytes u = 0)"
    by (auto simp add: UnprocessedElements_empty_def UnprocessedElements_numBytes_def)
next
  assume "\<not> UnprocessedElements_empty u"
  then show "compareChains E this u cs =
      (Inr \<lparr>Code = Remote_Is_Not_Synced, CommonBlockHeight = maxHeight u, ForkDepth = 0\<rparr>, cs)"
    by (simp add: compareChains_def)
next
  assume "m_elements u = []"
  then show "maxHeight u = 0" by (simp add: maxHeight_def back_opt_def)
next
  assume "m_elements u = es @ [info]"
  then show "maxHeight u = EndHeight info" by (simp add: maxHeight_def back_opt_snoc)
next
  assume nonempty: "\<not> UnprocessedElements_empty (m_pUnprocessedElements this)"
    and gate: "shouldStartSync (m_pUnprocessedElements this) = (True, v)"
  from gate have v: "v = (m_pUnprocessedElements this)\<lparr>m_hasPendingSync := True\<rparr>"
    by (auto simp add: shouldStartSync_def split: if_splits)
  with nonempty have ne: "\<not> UnprocessedElements_empty v" and mh: "maxHeight v = maxHeight (m_pUnprocessedElements this)"
    by (simp_all add: UnprocessedElements_empty_def UnprocessedElements_numBytes_def maxHeight_def)
  from ne have cmp: "compareChains E this v cs =
      (Inr \<lparr>Code = Remote_Is_Not_Synced, CommonBlockHeight = maxHeight v, ForkDepth = 0\<rparr>, cs)"
    by (simp add: compareChains_def)
  show "sync_round E this cs =
      map_option (\<lambda>(f, w, es). (f, this\<lparr>m_pUnprocessedElements := clearPendingSync w\<rparr>, es))
        (ChainBlocksFrom (CreateFutureSupplier E (m_blocksFromOptions this)) E
           (maxHeight (m_pUnprocessedElements this) + 1) 0 RangeAggregator_ctor v cs)"
    using sync_round_started [OF gate cmp] by (simp add: syncWithPeer_def mh)
next
  assume nonempty: "\<not> UnprocessedElements_empty (m_pUnprocessedElements this)"
    and round: "sync_round E this cs = Some (f, this', cs')"
  show "\<exists>new. cs' = cs @ new \<and> (\<forall>opts. Call_CompareChains opts \<notin> set new)"
  proof (cases "fst (shouldStartSync (m_pUnprocessedElements this))")
    case False
    then obtain v where "shouldStartSync (m_pUnprocessedElements this) = (False, v)"
      by (cases "shouldStartSync (m_pUnprocessedElements this)") auto
    with round have "cs' = cs" by (simp add: sync_round_def)
    then show ?thesis by simp
  next
    case True
    then obtain v where gate: "shouldStartSync (m_pUnprocessedElements this) = (True, v)"
      by (cases "shouldStartSync (m_pUnprocessedElements this)") auto
    then have v: "v = (m_pUnprocessedElements this)\<lparr>m_hasPendingSync := True\<rparr>"
      by (auto simp add: shouldStartSync_def split: if_splits)
    with nonempty have ne: "\<not> UnprocessedElements_empty v"
      by (simp add: UnprocessedElements_empty_def UnprocessedElements_numBytes_def)
    then have cmp: "compareChains E this v cs =
        (Inr \<lparr>Code = Remote_Is_Not_Synced, CommonBlockHeight = maxHeight v, ForkDepth = 0\<rparr>, cs)"
      by (simp add: compareChains_def)
    from round sync_round_started [OF gate cmp] obtain y where
      loop: "ChainBlocksFrom (CreateFutureSupplier E (m_blocksFromOptions this)) E
               (maxHeight v + 1) 0 RangeAggregator_ctor v cs = Some y"
      and cs': "cs' = snd (snd y)"
      by (auto simp add: syncWithPeer_def)
    from ChainBlocksFrom_calls [OF loop, of E "m_blocksFromOptions this"] cs'
    show ?thesis by simp
  qed
qed

theorem C8_fast_path_witness:
  "compareChains env_103 (sync_100\<lparr>m_pUnprocessedElements := two_in_flight\<rparr>)
     (two_in_flight\<lparr>m_hasPendingSync := True\<rparr>) two_calls =
     (Inr \<lparr>Code = Remote_Is_Not_Synced, CommonBlockHeight = 102, ForkDepth = 0\<rparr>, two_calls)
   \<and> sync_round env_103 (sync_100\<lparr>m_pUnprocessedElements := two_in_flight\<rparr>) two_calls =
       Some (Inr Success,
             sync_100\<lparr>m_pUnprocessedElements :=
               \<lparr>m_elements =
                  [\<lparr>Id_info = 1, EndHeight = 101, NumBytes = 10\<rparr>,
                   \<lparr>Id_info = 2, EndHeight = 102, NumBytes = 10\<rparr>,
                   \<lparr>Id_info = 3, EndHeight = 103, NumBytes = 10\<rparr>],
                m_maxSize = 300, m_numBytes = 30, m_hasPendingSync = False, m_dirty = False\<rparr>\<rparr>,
             two_calls @ [Call_blocksFrom 103 options_100, Call_blockRangeConsumer range_103])
   \<and> (\<exists>new. two_calls @ [Call_blocksFrom 103 options_100, Call_blockRangeConsumer range_103]
              = two_calls @ new
            \<and> (\<forall>opts. Call_CompareChains opts \<notin> set new))"
proof -
  let ?sync = "sync_100\<lparr>m_pUnprocessedElements := two_in_flight\<rparr>"
  let ?v = "two_in_flight\<lparr>m_hasPendingSync := True\<rparr>"
  let ?after = "sync_100\<lparr>m_pUnprocessedElements :=
      \<lparr>m_elements =
         [\<lparr>Id_info = 1, EndHeight = 101, NumBytes = 10\<rparr>,
          \<lparr>Id_info = 2, EndHeight = 102, NumBytes = 10\<rparr>,
          \<lparr>Id_info = 3, EndHeight = 103, NumBytes = 10\<rparr>],
       m_maxSize = 300, m_numBytes = 30, m_hasPendingSync = False, m_dirty = False\<rparr>\<rparr>"
  let ?calls = "two_calls @ [Call_blocksFrom 103 options_100, Call_blockRangeConsumer range_103]"
  have nonempty: "\<not> UnprocessedElements_empty two_in_flight"
    by (simp add: sync_defs example_defs)
  have nonempty': "\<not> UnprocessedElements_empty ?v"
    by (simp add: sync_defs example_defs)
  have gate: "shouldStartSync (m_pUnprocessedElements ?sync) = (True, ?v)"
    by (simp add: unprocessed_defs example_defs)
  have top: "maxHeight two_in_flight = 102" "maxHeight ?v = 102"
    by (simp_all add: maxHeight_def back_opt_def example_defs)
  have loop: "ChainBlocksFrom (CreateFutureSupplier env_103 options_100) env_103 103 0
      RangeAggregator_ctor ?v two_calls =
      Some (Inr Success,
            \<lparr>m_elements =
               [\<lparr>Id_info = 1, EndHeight = 101, NumBytes = 10\<rparr>,
                \<lparr>Id_info = 2, EndHeight = 102, NumBytes = 10\<rparr>,
                \<lparr>Id_info = 3, EndHeight = 103, NumBytes = 10\<rparr>],
             m_maxSize = 300, m_numBytes = 30, m_hasPendingSync = True, m_dirty = False\<rparr>,
            ?calls)"
    by (subst ChainBlocksFrom.simps)
       (simp add: puller_defs unprocessed_defs example_defs word_le_nat_alt)
  have opts: "m_blocksFromOptions ?sync = options_100"
    by (simp add: sync_defs example_defs)
  have compare: "compareChains env_103 ?sync ?v two_calls =
      (Inr \<lparr>Code = Remote_Is_Not_Synced, CommonBlockHeight = 102, ForkDepth = 0\<rparr>, two_calls)"
    using C8_fast_path [where u = ?v and E = env_103 and this = ?sync and cs = two_calls]
      nonempty' top
    by simp
  have round: "sync_round env_103 ?sync two_calls = Some (Inr Success, ?after, ?calls)"
    using C8_fast_path [where this = ?sync and E = env_103 and cs = two_calls and v = ?v]
      nonempty gate top loop
    by (simp add: opts) (simp add: unprocessed_defs)
  have log: "\<exists>new. ?calls = two_calls @ new \<and> (\<forall>opts. Call_CompareChains opts \<notin> set new)"
    using C8_fast_path [where this = ?sync and E = env_103 and cs = two_calls
        and f = "Inr Success" and this' = ?after and cs' = ?calls] nonempty round
    by simp
  show ?thesis
    by (rule conjI [OF compare conjI [OF round log]])
qed

text \<open>
  Claim C9. A peer-sourced error is a failure of a call to the peer, which the future of
  that call holds as a \<^verbatim>\<open>catapult_runtime_error\<close> (or a class derived from it). No such
  error leaves a round: the future of a round never holds a runtime error. Such an error
  of the chain comparison, of a block request or of the request for unconfirmed
  transactions makes the result of the round \<open>Failure\<close>. With peers whose calls fail in
  this way only, the future of every round holds a result.
\<close>

theorem C9_peer_errors:
  "(sync_round E this cs = Some (f, this', cs') \<longrightarrow> f \<noteq> Inl catapult_runtime_error)
   \<and> (shouldStartSync (m_pUnprocessedElements this) = (True, u) \<longrightarrow>
        compareChains E this u cs = (Inl catapult_runtime_error, ds) \<longrightarrow>
        sync_round E this cs =
          Some (Inr Failure, this\<lparr>m_pUnprocessedElements := clearPendingSync u\<rparr>, ds))
   \<and> (supplier height cs = (Inl catapult_runtime_error, ds) \<longrightarrow>
        ChainBlocksFrom supplier E height forkDepth agg u cs = Some (Inr Failure, u, ds))
   \<and> (Code r = Remote_Reported_Equal_Chain_Score \<longrightarrow>
        unconfirmedTransactions E
          (cs @ [Call_shortHashesSupplier,
                 Call_unconfirmedTransactions
                   (shortHashesSupplier E (cs @ [Call_shortHashesSupplier]))])
          = Inl catapult_runtime_error \<longrightarrow>
        syncWithPeer E this r u cs =
          Some (Inr Failure, u,
                cs @ [Call_shortHashesSupplier,
                      Call_unconfirmedTransactions
                        (shortHashesSupplier E (cs @ [Call_shortHashesSupplier]))]))
   \<and> ((\<forall>c e. CompareChains E c = Inl e \<or> blocksFrom E c = Inl e
               \<or> unconfirmedTransactions E c = Inl e \<longrightarrow> e = catapult_runtime_error) \<longrightarrow>
        sync_round E this cs = Some (f, this', cs') \<longrightarrow> (\<exists>res. f = Inr res))"
proof (intro conjI impI)
  assume "sync_round E this cs = Some (f, this', cs')"
  then show "f \<noteq> Inl catapult_runtime_error" by (rule sync_round_not_runtime_error)
next
  assume "shouldStartSync (m_pUnprocessedElements this) = (True, u)"
    "compareChains E this u cs = (Inl catapult_runtime_error, ds)"
  then show "sync_round E this cs =
      Some (Inr Failure, this\<lparr>m_pUnprocessedElements := clearPendingSync u\<rparr>, ds)"
    by (simp add: sync_round_compare_error catch_runtime_error_def)
next
  assume "supplier height cs = (Inl catapult_runtime_error, ds)"
  then show "ChainBlocksFrom supplier E height forkDepth agg u cs = Some (Inr Failure, u, ds)"
    by (simp add: ChainBlocksFrom_error catch_runtime_error_def)
next
  assume "Code r = Remote_Reported_Equal_Chain_Score"
    "unconfirmedTransactions E
       (cs @ [Call_shortHashesSupplier,
              Call_unconfirmedTransactions
                (shortHashesSupplier E (cs @ [Call_shortHashesSupplier]))])
       = Inl catapult_runtime_error"
  then show "syncWithPeer E this r u cs =
      Some (Inr Failure, u,
            cs @ [Call_shortHashesSupplier,
                  Call_unconfirmedTransactions
                    (shortHashesSupplier E (cs @ [Call_shortHashesSupplier]))])"
    by (simp add: syncWithPeer_def Let_def catch_runtime_error_def)
next
  assume "\<forall>c e. CompareChains E c = Inl e \<or> blocksFrom E c = Inl e
             \<or> unconfirmedTransactions E c = Inl e \<longrightarrow> e = catapult_runtime_error"
    "sync_round E this cs = Some (f, this', cs')"
  then show "\<exists>res. f = Inr res" by (rule sync_round_value [rotated])
qed

theorem C9_peer_errors_witness:
  "sync_round env_compare_fails sync_100 [] = Some (Inr Failure, sync_100, [compare_call])
   \<and> sync_round env_blocks_fail sync_100 [] =
       Some (Inr Failure, sync_100, [compare_call, Call_blocksFrom 101 options_100])
   \<and> sync_round env_transactions_fail sync_100 [] =
       Some (Inr Failure, sync_100,
             [compare_call, Call_shortHashesSupplier, Call_unconfirmedTransactions [7]])
   \<and> Inr Failure \<noteq> (Inl catapult_runtime_error :: NodeInteractionResult future)
   \<and> (\<exists>res. (Inr Failure :: NodeInteractionResult future) = Inr res)"
proof -
  have gate: "shouldStartSync (m_pUnprocessedElements sync_100) = (True, started)"
    by (simp add: sync_defs unprocessed_defs example_defs)
  have cleared: "sync_100\<lparr>m_pUnprocessedElements := clearPendingSync started\<rparr> = sync_100"
    by (simp add: sync_defs unprocessed_defs example_defs)
  have opts: "m_blocksFromOptions sync_100 = options_100"
    by (simp add: sync_defs example_defs)
  have compare: "sync_round env_compare_fails sync_100 [] =
      Some (Inr Failure, sync_100, [compare_call])"
    using C9_peer_errors [where this = sync_100 and u = started and E = env_compare_fails
        and cs = "[]" and ds = "[compare_call]"] gate cleared
    by (simp add: sync_defs unprocessed_defs example_defs)
  have pull: "ChainBlocksFrom (CreateFutureSupplier env_blocks_fail options_100) env_blocks_fail
      101 2 RangeAggregator_ctor started [compare_call] =
      Some (Inr Failure, started, [compare_call, Call_blocksFrom 101 options_100])"
    using C9_peer_errors [where supplier = "CreateFutureSupplier env_blocks_fail options_100"
        and height = 101 and cs = "[compare_call]"
        and ds = "[compare_call, Call_blocksFrom 101 options_100]"
        and E = env_blocks_fail and forkDepth = 2 and agg = RangeAggregator_ctor
        and u = started]
    by (simp add: CreateFutureSupplier_def Let_def example_defs)
  have blocks: "sync_round env_blocks_fail sync_100 [] =
      Some (Inr Failure, sync_100, [compare_call, Call_blocksFrom 101 options_100])"
    using sync_round_started [where this = sync_100 and u = started and E = env_blocks_fail
        and cs = "[]" and ds = "[compare_call]"
        and r = "\<lparr>Code = Remote_Is_Not_Synced, CommonBlockHeight = 100, ForkDepth = 2\<rparr>"]
      gate pull cleared
    by (simp add: syncWithPeer_def opts) (simp add: sync_defs unprocessed_defs example_defs)
  have txs: "syncWithPeer env_transactions_fail sync_100
      \<lparr>Code = Remote_Reported_Equal_Chain_Score, CommonBlockHeight = 100, ForkDepth = 0\<rparr>
      started [compare_call] =
      Some (Inr Failure, started,
            [compare_call, Call_shortHashesSupplier, Call_unconfirmedTransactions [7]])"
    using C9_peer_errors [where E = env_transactions_fail and this = sync_100
        and r = "\<lparr>Code = Remote_Reported_Equal_Chain_Score, CommonBlockHeight = 100,
                   ForkDepth = 0\<rparr>"
        and u = started and cs = "[compare_call]"]
    by (simp add: example_defs)
  have transactions: "sync_round env_transactions_fail sync_100 [] =
      Some (Inr Failure, sync_100,
            [compare_call, Call_shortHashesSupplier, Call_unconfirmedTransactions [7]])"
    using sync_round_started [where this = sync_100 and u = started
        and E = env_transactions_fail and cs = "[]" and ds = "[compare_call]"
        and r = "\<lparr>Code = Remote_Reported_Equal_Chain_Score, CommonBlockHeight = 100,
                   ForkDepth = 0\<rparr>"]
      gate txs cleared
    by (simp add: sync_defs unprocessed_defs example_defs)
  have peer: "\<forall>c e. CompareChains env_blocks_fail c = Inl e \<or> blocksFrom env_blocks_fail c = Inl e
      \<or> unconfirmedTransactions env_blocks_fail c = Inl e \<longrightarrow> e = catapult_runtime_error"
    by (simp add: example_defs)
  have caught: "Inr Failure \<noteq> (Inl catapult_runtime_error :: NodeInteractionResult future)"
    using C9_peer_errors [where E = env_blocks_fail and this = sync_100 and cs = "[]"
        and f = "Inr Failure" and this' = sync_100
        and cs' = "[compare_call, Call_blocksFrom 101 options_100]"] blocks
    by simp
  have val: "\<exists>res. (Inr Failure :: NodeInteractionResult future) = Inr res"
    using C9_peer_errors [where E = env_blocks_fail and this = sync_100 and cs = "[]"
        and f = "Inr Failure" and this' = sync_100
        and cs' = "[compare_call, Call_blocksFrom 101 options_100]"] blocks peer
    by simp
  show ?thesis
    by (rule conjI [OF compare conjI [OF blocks conjI [OF transactions conjI [OF caught val]]]])
qed

text \<open>
  The \<^verbatim>\<open>catch\<close> clauses name \<^verbatim>\<open>catapult_runtime_error\<close>: an exception of another class,
  which is not how a peer call fails, is not caught. When the future of the chain
  comparison or of a block request holds one, the future of the round holds it too.
\<close>

lemma other_exceptions_pass:
  "sync_round env_compare_throws sync_100 [] =
     Some (Inl other_exception, sync_100, [compare_call])
   \<and> sync_round env_blocks_throw sync_100 [] =
       Some (Inl other_exception, sync_100, [compare_call, Call_blocksFrom 101 options_100])"
proof -
  have pull: "ChainBlocksFrom (CreateFutureSupplier env_blocks_throw options_100)
      env_blocks_throw 101 2 RangeAggregator_ctor started [compare_call] =
      Some (Inl other_exception, started, [compare_call, Call_blocksFrom 101 options_100])"
    by (subst ChainBlocksFrom.simps)
       (simp add: puller_defs example_defs Let_def)
  have compare: "sync_round env_compare_throws sync_100 [] =
      Some (Inl other_exception, sync_100, [compare_call])"
    by (simp add: sync_round_def sync_defs unprocessed_defs example_defs catch_runtime_error_def)
  have opts: "m_blocksFromOptions sync_100 = options_100"
    by (simp add: sync_defs example_defs)
  have gate: "shouldStartSync (m_pUnprocessedElements sync_100) = (True, started)"
    by (simp add: sync_defs unprocessed_defs example_defs)
  have cmp: "compareChains env_blocks_throw sync_100 started [] =
      (Inr \<lparr>Code = Remote_Is_Not_Synced, CommonBlockHeight = 100, ForkDepth = 2\<rparr>,
       [compare_call])"
    by (simp add: sync_defs unprocessed_defs example_defs)
  have cleared: "sync_100\<lparr>m_pUnprocessedElements := clearPendingSync started\<rparr> = sync_100"
    by (simp add: sync_defs unprocessed_defs example_defs)
  have blocks: "sync_round env_blocks_throw sync_100 [] =
      Some (Inl other_exception, sync_100, [compare_call, Call_blocksFrom 101 options_100])"
    by (simp add: sync_round_def gate cmp syncWithPeer_def opts pull cleared)
  show ?thesis by (rule conjI [OF compare blocks])
qed

end
